theory Spec2Isabelle
  imports Complex_Main
begin

section \<open>The audio splitter (lambda/audio-splitter/index.js)\<close>

text \<open>
  A shallow embedding of the Lambda handler and its five helpers. The handler talks to
  S3, to the local file system under /tmp, to ffprobe/ffmpeg and to the transcription
  service. Each of these calls is a step on an explicit \<open>world\<close>: the S3 objects, the local
  files and the list of calls made so far. What the outside decides (whether a call fails and
  with which message, what \<open>Date.now()\<close> reads, what ffprobe reports, what ffmpeg encodes) is
  a parameter, the \<open>env\<close>.

  JavaScript numbers that hold seconds are modelled as real numbers; the duration that
  \<open>parseFloat\<close> reads from the ffprobe report is a real number or NaN (\<open>jsnum\<close>). Rounding
  of doubles and the infinities are outside the model. Segment indices and clock readings are
  natural numbers. Strings are lists of characters. The \<open>stack\<close> text of an error and the
  service's \<open>TranscriptionJob\<close> reply are opaque texts and are left out of the records, and
  so is what \<open>console.log\<close> prints.
\<close>

subsection \<open>Data\<close>

type_synonym blob = "nat list"

datatype jserror = Error (message: string)

text \<open>
  A number as \<open>parseFloat\<close> returns it: NaN when the text is no number (ffprobe reports
  no duration, or \<open>N/A\<close>). Every comparison with NaN is false.
\<close>

datatype jsnum = Num real | NaN

definition js_le :: "jsnum \<Rightarrow> real \<Rightarrow> bool" where
  "js_le d c = (case d of Num x \<Rightarrow> x \<le> c | NaN \<Rightarrow> False)"

definition js_gt :: "jsnum \<Rightarrow> real \<Rightarrow> bool" where
  "js_gt d c = (case d of Num x \<Rightarrow> c < x | NaN \<Rightarrow> False)"

text \<open>The size is only reported; no decision of the code reads it.\<close>

record audioInfo =
  info_duration :: jsnum
  info_size :: int
  info_format :: string

record segment =
  seg_index :: nat
  seg_path :: string
  seg_startTime :: real
  seg_duration :: real

record segmentUrl =
  su_url :: string
  su_key :: string
  su_index :: nat
  su_startTime :: real
  su_duration :: real

record transcribeParams =
  TranscriptionJobName :: string
  MediaFileUri :: string
  MediaFormat :: string
  LanguageCode :: string
  OutputBucketName :: "string option"
  OutputKey :: string

record transcriptionJob =
  job_jobName :: string
  job_segmentIndex :: nat
  job_status :: string

text \<open>
  The event the handler is called with: \<open>null\<close>, \<open>undefined\<close>, or a value with the
  properties \<open>s3Key\<close> and \<open>bucketName\<close>, each a string or absent (\<open>None\<close>; a property
  that holds \<open>null\<close> or \<open>undefined\<close> counts as absent). The third component is the message
  of the TypeError that \<open>JSON.stringify\<close> throws on the event (a cycle, a BigInt), or
  \<open>None\<close> when it throws none, as for every value parsed from JSON. Property values that
  are neither strings nor absent are outside the model.
\<close>

datatype event =
    NullEvent
  | UndefinedEvent
  | ObjectEvent "string option" "string option" "string option"

datatype body =
    NoSplitNeeded jsnum string
  | SplitComplete string nat "segmentUrl list" jsnum
  | ErrorBody string

record response =
  statusCode :: nat
  body :: body

fun status :: "body \<Rightarrow> string" where
  "status (NoSplitNeeded d m) = ''no-split-needed''"
| "status (SplitComplete k n urls d) = ''split-complete''"
| "status (ErrorBody m) = ''error''"

subsection \<open>The outside world\<close>

text \<open>
  One constructor per external call of the source. \<open>S3PutObject\<close> carries bucket, key and the
  four metadata values; \<open>FfmpegSave\<close> carries the input path, the \<open>seekInput\<close> offset, the
  \<open>duration\<close> and the output path.
\<close>

datatype call =
    S3GetObject string string
  | S3PutObject string string string nat real real
  | FsWriteFile string
  | FsReadFile string
  | FsUnlink string
  | Ffprobe string
  | FfmpegSave string real real string
  | StartTranscriptionJob transcribeParams

record world =
  objects :: "string \<times> string \<Rightarrow> blob option"
  files :: "string \<Rightarrow> blob option"
  trace :: "call list"

text \<open>
  \<open>fault env n c = Some m\<close>: the call \<open>c\<close>, made when \<open>n\<close> calls have been made before it,
  fails with an error of message \<open>m\<close>. \<open>clock env n\<close> is what \<open>Date.now()\<close> reads when \<open>n\<close>
  calls have been made.
\<close>

record env =
  fault :: "nat \<Rightarrow> call \<Rightarrow> string option"
  clock :: "nat \<Rightarrow> nat"
  probe :: "blob \<Rightarrow> audioInfo"
  encode :: "blob \<Rightarrow> real \<Rightarrow> real \<Rightarrow> blob"

definition Date_now :: "env \<Rightarrow> world \<Rightarrow> nat" where
  "Date_now env w = clock env (length (trace w))"

definition record_call :: "world \<Rightarrow> call \<Rightarrow> world" where
  "record_call w c = w\<lparr>trace := trace w @ [c]\<rparr>"

definition s3_getObject :: "env \<Rightarrow> world \<Rightarrow> string \<Rightarrow> string \<Rightarrow> (jserror + blob) \<times> world" where
  "s3_getObject env w bucket key =
     (let c = S3GetObject bucket key; w' = record_call w c in
      case fault env (length (trace w)) c of
        Some m \<Rightarrow> (Inl (Error m), w')
      | None \<Rightarrow>
          (case objects w (bucket, key) of
             None \<Rightarrow> (Inl (Error ''NoSuchKey''), w')
           | Some b \<Rightarrow> (Inr b, w')))"

definition s3_putObject ::
  "env \<Rightarrow> world \<Rightarrow> string \<Rightarrow> string \<Rightarrow> blob \<Rightarrow> string \<Rightarrow> nat \<Rightarrow> real \<Rightarrow> real \<Rightarrow> (jserror + unit) \<times> world" where
  "s3_putObject env w bucket key data orig idx start dur =
     (let c = S3PutObject bucket key orig idx start dur; w' = record_call w c in
      case fault env (length (trace w)) c of
        Some m \<Rightarrow> (Inl (Error m), w')
      | None \<Rightarrow> (Inr (), w'\<lparr>objects := (objects w')((bucket, key) \<mapsto> data)\<rparr>))"

definition fs_writeFile :: "env \<Rightarrow> world \<Rightarrow> string \<Rightarrow> blob \<Rightarrow> (jserror + unit) \<times> world" where
  "fs_writeFile env w p data =
     (let c = FsWriteFile p; w' = record_call w c in
      case fault env (length (trace w)) c of
        Some m \<Rightarrow> (Inl (Error m), w')
      | None \<Rightarrow> (Inr (), w'\<lparr>files := (files w')(p \<mapsto> data)\<rparr>))"

definition fs_readFile :: "env \<Rightarrow> world \<Rightarrow> string \<Rightarrow> (jserror + blob) \<times> world" where
  "fs_readFile env w p =
     (let c = FsReadFile p; w' = record_call w c in
      case fault env (length (trace w)) c of
        Some m \<Rightarrow> (Inl (Error m), w')
      | None \<Rightarrow>
          (case files w p of
             None \<Rightarrow> (Inl (Error ''ENOENT''), w')
           | Some b \<Rightarrow> (Inr b, w')))"

definition fs_unlink :: "env \<Rightarrow> world \<Rightarrow> string \<Rightarrow> (jserror + unit) \<times> world" where
  "fs_unlink env w p =
     (let c = FsUnlink p; w' = record_call w c in
      case fault env (length (trace w)) c of
        Some m \<Rightarrow> (Inl (Error m), w')
      | None \<Rightarrow>
          (case files w p of
             None \<Rightarrow> (Inl (Error ''ENOENT''), w')
           | Some b \<Rightarrow> (Inr (), w'\<lparr>files := (files w')(p := None)\<rparr>)))"

definition ffprobe :: "env \<Rightarrow> world \<Rightarrow> string \<Rightarrow> (jserror + audioInfo) \<times> world" where
  "ffprobe env w p =
     (let c = Ffprobe p; w' = record_call w c in
      case fault env (length (trace w)) c of
        Some m \<Rightarrow> (Inl (Error m), w')
      | None \<Rightarrow>
          (case files w p of
             None \<Rightarrow> (Inl (Error ''ENOENT''), w')
           | Some b \<Rightarrow> (Inr (probe env b), w')))"

definition ffmpeg_save ::
  "env \<Rightarrow> world \<Rightarrow> string \<Rightarrow> real \<Rightarrow> real \<Rightarrow> string \<Rightarrow> (jserror + unit) \<times> world" where
  "ffmpeg_save env w inp seek dur out =
     (let c = FfmpegSave inp seek dur out; w' = record_call w c in
      case fault env (length (trace w)) c of
        Some m \<Rightarrow> (Inl (Error m), w')
      | None \<Rightarrow>
          (case files w inp of
             None \<Rightarrow> (Inl (Error ''ENOENT''), w')
           | Some b \<Rightarrow> (Inr (), w'\<lparr>files := (files w')(out \<mapsto> encode env b seek dur)\<rparr>)))"

definition startTranscriptionJob :: "env \<Rightarrow> world \<Rightarrow> transcribeParams \<Rightarrow> (jserror + unit) \<times> world" where
  "startTranscriptionJob env w params =
     (let c = StartTranscriptionJob params; w' = record_call w c in
      case fault env (length (trace w)) c of
        Some m \<Rightarrow> (Inl (Error m), w')
      | None \<Rightarrow> (Inr (), w'))"

subsection \<open>Strings\<close>

text \<open>The decimal text of a non-negative integer, as a template literal prints it.\<close>

definition digit_char :: "nat \<Rightarrow> char" where
  "digit_char d = ''0123456789'' ! d"

function string_of_nat :: "nat \<Rightarrow> string" where
  "string_of_nat n =
     (if n < 10 then [digit_char n] else string_of_nat (n div 10) @ [digit_char (n mod 10)])"
  by pat_completeness auto
termination
  by (relation "measure id") auto

declare string_of_nat.simps [simp del]

text \<open>
  \<open>originalS3Key.replace(/\.[^/.]+$/, '')\<close>: the search tries the start positions from the
  left; the pattern matches at a dot whose rest of the string is not empty and has neither a
  slash nor a dot, and the match (which reaches the end of the string) is replaced by the
  empty string.
\<close>

fun removeExtension :: "string \<Rightarrow> string" where
  "removeExtension [] = []"
| "removeExtension (c # cs) =
     (if c = CHR ''.'' \<and> cs \<noteq> [] \<and> list_all (\<lambda>d. d \<noteq> CHR ''/'' \<and> d \<noteq> CHR ''.'') cs
      then [] else c # removeExtension cs)"

text \<open>\<open>s.split(sep)\<close> for a separator of one character, and \<open>xs[i]\<close> (undefined out of range).\<close>

fun split_on :: "char \<Rightarrow> string \<Rightarrow> string list" where
  "split_on sep [] = [[]]"
| "split_on sep (c # cs) =
     (if c = sep then [] # split_on sep cs
      else (case split_on sep cs of [] \<Rightarrow> [[c]] | p # ps \<Rightarrow> (c # p) # ps))"

fun nth_opt :: "'a list \<Rightarrow> nat \<Rightarrow> 'a option" where
  "nth_opt [] i = None"
| "nth_opt (x # xs) 0 = Some x"
| "nth_opt (x # xs) (Suc i) = nth_opt xs i"

subsection \<open>analyzeAudioFile\<close>

text \<open>
  On an ffprobe error the callback rejects and returns before the unlink. On success the
  unlink is started before the promise resolves and its failure is only warned about; the
  model runs it at that point.
\<close>

definition analyzeAudioFile :: "env \<Rightarrow> world \<Rightarrow> string \<Rightarrow> string \<Rightarrow> (jserror + audioInfo) \<times> world" where
  "analyzeAudioFile env w key bucket =
     (let tempInputPath = ''/tmp/input_'' @ string_of_nat (Date_now env w) @ ''.mp3'' in
      case s3_getObject env w bucket key of
        (Inl e, w1) \<Rightarrow> (Inl e, w1)
      | (Inr s3Object, w1) \<Rightarrow>
          (case fs_writeFile env w1 tempInputPath s3Object of
             (Inl e, w2) \<Rightarrow> (Inl e, w2)
           | (Inr u, w2) \<Rightarrow>
               (case ffprobe env w2 tempInputPath of
                  (Inl e, w3) \<Rightarrow> (Inl e, w3)
                | (Inr metadata, w3) \<Rightarrow> (Inr metadata, snd (fs_unlink env w3 tempInputPath)))))"

subsection \<open>splitAudioFile\<close>

definition segmentDuration :: real where
  "segmentDuration = 3.5 * 60 * 60"

text \<open>
  The \<open>for\<close> loop of splitAudioFile. \<open>segDur\<close>, \<open>totalDuration\<close>, \<open>numSegments\<close> and
  \<open>tempInputPath\<close> are the variables the loop body reads; \<open>i\<close> and \<open>segments\<close> are the ones
  it changes.
\<close>

function splitLoop ::
  "env \<Rightarrow> real \<Rightarrow> real \<Rightarrow> int \<Rightarrow> string \<Rightarrow> nat \<Rightarrow> segment list \<Rightarrow> world \<Rightarrow> (jserror + segment list) \<times> world" where
  "splitLoop env segDur totalDuration numSegments tempInputPath i segments w =
     (if int i < numSegments then
        (let startTime = real i * segDur;
             segmentPath = ''/tmp/segment_'' @ string_of_nat i @ ''_'' @ string_of_nat (Date_now env w) @ ''.mp3''
         in case ffmpeg_save env w tempInputPath startTime segDur segmentPath of
              (Inl e, w') \<Rightarrow> (Inl e, w')
            | (Inr u, w') \<Rightarrow>
                splitLoop env segDur totalDuration numSegments tempInputPath (i + 1)
                  (segments @ [\<lparr>seg_index = i, seg_path = segmentPath, seg_startTime = startTime,
                                 seg_duration = min segDur (totalDuration - startTime)\<rparr>]) w')
      else (Inr segments, w))"
  by pat_completeness auto
termination
  by (relation "measure (\<lambda>(env, segDur, totalDuration, numSegments, tempInputPath, i, segments, w).
        nat (numSegments - int i))") auto

declare splitLoop.simps [simp del]

text \<open>
  splitAudioFile with the segment length as an argument; the source fixes it to
  \<open>segmentDuration\<close>. The quotient is the one of the reals, which is JavaScript's for a
  segment length other than zero.
\<close>

definition splitAudioFileWith ::
  "real \<Rightarrow> env \<Rightarrow> world \<Rightarrow> string \<Rightarrow> string \<Rightarrow> real \<Rightarrow> (jserror + segment list) \<times> world" where
  "splitAudioFileWith segDur env w key bucket totalDuration =
     (let tempInputPath = ''/tmp/input_'' @ string_of_nat (Date_now env w) @ ''.mp3'' in
      case s3_getObject env w bucket key of
        (Inl e, w1) \<Rightarrow> (Inl e, w1)
      | (Inr s3Object, w1) \<Rightarrow>
          (case fs_writeFile env w1 tempInputPath s3Object of
             (Inl e, w2) \<Rightarrow> (Inl e, w2)
           | (Inr u, w2) \<Rightarrow>
               (let numSegments = \<lceil>totalDuration / segDur\<rceil> in
                case splitLoop env segDur totalDuration numSegments tempInputPath 0 [] w2 of
                  (Inl e, w3) \<Rightarrow> (Inl e, w3)
                | (Inr segments, w3) \<Rightarrow>
                    (case fs_unlink env w3 tempInputPath of
                       (Inl e, w4) \<Rightarrow> (Inl e, w4)
                     | (Inr u', w4) \<Rightarrow> (Inr segments, w4)))))"

definition splitAudioFile ::
  "env \<Rightarrow> world \<Rightarrow> string \<Rightarrow> string \<Rightarrow> real \<Rightarrow> (jserror + segment list) \<times> world" where
  "splitAudioFile = splitAudioFileWith segmentDuration"

text \<open>
  splitAudioFile on the number the handler passes. For NaN the quotient and its
  \<open>Math.ceil\<close> are NaN and the loop test \<open>0 < NaN\<close> is false: the function downloads the
  object, writes the copy, makes no segment, removes the copy and returns the empty list.
\<close>

definition splitAudioFileNum ::
  "env \<Rightarrow> world \<Rightarrow> string \<Rightarrow> string \<Rightarrow> jsnum \<Rightarrow> (jserror + segment list) \<times> world" where
  "splitAudioFileNum env w key bucket totalDuration =
     (case totalDuration of
        Num t \<Rightarrow> splitAudioFile env w key bucket t
      | NaN \<Rightarrow>
          (let tempInputPath = ''/tmp/input_'' @ string_of_nat (Date_now env w) @ ''.mp3'' in
           case s3_getObject env w bucket key of
             (Inl e, w1) \<Rightarrow> (Inl e, w1)
           | (Inr s3Object, w1) \<Rightarrow>
               (case fs_writeFile env w1 tempInputPath s3Object of
                  (Inl e, w2) \<Rightarrow> (Inl e, w2)
                | (Inr u, w2) \<Rightarrow>
                    (case fs_unlink env w2 tempInputPath of
                       (Inl e, w3) \<Rightarrow> (Inl e, w3)
                     | (Inr u', w3) \<Rightarrow> (Inr [], w3)))))"

subsection \<open>uploadSegments\<close>

definition segmentKey :: "string \<Rightarrow> nat \<Rightarrow> string" where
  "segmentKey originalS3Key idx =
     removeExtension originalS3Key @ ''_segment_'' @ string_of_nat idx @ ''.mp3''"

text \<open>The body of the \<open>for\<close> loop of uploadSegments: read the segment file, put it, describe it.\<close>

definition publishSegment ::
  "env \<Rightarrow> world \<Rightarrow> string \<Rightarrow> string \<Rightarrow> segment \<Rightarrow> (jserror + segmentUrl) \<times> world" where
  "publishSegment env w bucket originalS3Key seg =
     (let key = segmentKey originalS3Key (seg_index seg) in
      case fs_readFile env w (seg_path seg) of
        (Inl e, w1) \<Rightarrow> (Inl e, w1)
      | (Inr segmentData, w1) \<Rightarrow>
          (case s3_putObject env w1 bucket key segmentData originalS3Key
                  (seg_index seg) (seg_startTime seg) (seg_duration seg) of
             (Inl e, w2) \<Rightarrow> (Inl e, w2)
           | (Inr u, w2) \<Rightarrow>
               (Inr \<lparr>su_url = ''s3://'' @ bucket @ ''/'' @ key, su_key = key,
                      su_index = seg_index seg, su_startTime = seg_startTime seg,
                      su_duration = seg_duration seg\<rparr>, w2)))"

fun uploadLoop ::
  "env \<Rightarrow> string \<Rightarrow> string \<Rightarrow> segment list \<Rightarrow> segmentUrl list \<Rightarrow> world \<Rightarrow> (jserror + segmentUrl list) \<times> world" where
  "uploadLoop env bucket originalS3Key [] segmentUrls w = (Inr segmentUrls, w)"
| "uploadLoop env bucket originalS3Key (seg # rest) segmentUrls w =
     (case publishSegment env w bucket originalS3Key seg of
        (Inl e, w') \<Rightarrow> (Inl e, w')
      | (Inr url, w') \<Rightarrow> uploadLoop env bucket originalS3Key rest (segmentUrls @ [url]) w')"

definition uploadSegments ::
  "env \<Rightarrow> world \<Rightarrow> segment list \<Rightarrow> string \<Rightarrow> string \<Rightarrow> (jserror + segmentUrl list) \<times> world" where
  "uploadSegments env w segments bucket originalS3Key = uploadLoop env bucket originalS3Key segments [] w"

subsection \<open>cleanupTempFiles\<close>

fun cleanupTempFiles :: "env \<Rightarrow> world \<Rightarrow> segment list \<Rightarrow> world" where
  "cleanupTempFiles env w [] = w"
| "cleanupTempFiles env w (seg # rest) = cleanupTempFiles env (snd (fs_unlink env w (seg_path seg))) rest"

subsection \<open>triggerTranscriptionJobs\<close>

definition jobParams :: "string \<Rightarrow> segmentUrl \<Rightarrow> transcribeParams" where
  "jobParams jobName seg =
     \<lparr>TranscriptionJobName = jobName, MediaFileUri = su_url seg, MediaFormat = ''mp3'',
      LanguageCode = ''en-US'', OutputBucketName = nth_opt (split_on CHR ''/'' (su_url seg)) 2,
      OutputKey = ''transcriptions/'' @ jobName @ ''.json''\<rparr>"

fun triggerLoop ::
  "env \<Rightarrow> segmentUrl list \<Rightarrow> transcriptionJob list \<Rightarrow> world \<Rightarrow> transcriptionJob list \<times> world" where
  "triggerLoop env [] transcriptionJobs w = (transcriptionJobs, w)"
| "triggerLoop env (seg # rest) transcriptionJobs w =
     (let jobName = ''boardbreeze-segment-'' @ string_of_nat (su_index seg) @ ''-''
                      @ string_of_nat (Date_now env w) in
      case startTranscriptionJob env w (jobParams jobName seg) of
        (Inl e, w') \<Rightarrow> triggerLoop env rest transcriptionJobs w'
      | (Inr u, w') \<Rightarrow>
          triggerLoop env rest
            (transcriptionJobs @ [\<lparr>job_jobName = jobName, job_segmentIndex = su_index seg,
                                   job_status = ''STARTED''\<rparr>]) w')"

definition triggerTranscriptionJobs :: "env \<Rightarrow> world \<Rightarrow> segmentUrl list \<Rightarrow> transcriptionJob list \<times> world" where
  "triggerTranscriptionJobs env w segmentUrls = triggerLoop env segmentUrls [] w"

subsection \<open>handler\<close>

definition fourHoursInSeconds :: real where
  "fourHoursInSeconds = 4 * 60 * 60"

text \<open>Steps 2 to 4 of the handler: split, upload, clean up, and the split-complete result.\<close>

definition splitAndPublish :: "env \<Rightarrow> world \<Rightarrow> string \<Rightarrow> string \<Rightarrow> audioInfo \<Rightarrow> (jserror + response) \<times> world" where
  "splitAndPublish env w key bucket audioInfo =
     (case splitAudioFileNum env w key bucket (info_duration audioInfo) of
        (Inl e, w1) \<Rightarrow> (Inl e, w1)
      | (Inr segments, w1) \<Rightarrow>
          (case uploadSegments env w1 segments bucket key of
             (Inl e, w2) \<Rightarrow> (Inl e, w2)
           | (Inr segmentUrls, w2) \<Rightarrow>
               (Inr \<lparr>statusCode = 200,
                     body = SplitComplete key (length segmentUrls) segmentUrls (info_duration audioInfo)\<rparr>,
                cleanupTempFiles env w2 segments)))"

text \<open>
  The TypeError of \<open>const { s3Key, bucketName } = event\<close> on an event that is \<open>null\<close> or
  \<open>undefined\<close>, in the words of Node's engine.
\<close>

definition nullEventMessage :: string where
  "nullEventMessage = ''Cannot destructure property 's3Key' of 'event' as it is null.''"

definition undefinedEventMessage :: string where
  "undefinedEventMessage = ''Cannot destructure property 's3Key' of 'event' as it is undefined.''"

text \<open>
  The body of the \<open>try\<close> block. A parameter is falsy when it is absent (\<open>None\<close>) or the empty
  string.
\<close>

definition handlerTry :: "env \<Rightarrow> world \<Rightarrow> event \<Rightarrow> (jserror + response) \<times> world" where
  "handlerTry env w ev =
     (case ev of
        NullEvent \<Rightarrow> (Inl (Error nullEventMessage), w)
      | UndefinedEvent \<Rightarrow> (Inl (Error undefinedEventMessage), w)
      | ObjectEvent s3Key bucketName unloggable \<Rightarrow>
          (case (s3Key, bucketName) of
             (Some key, Some bucket) \<Rightarrow>
               (if key = [] \<or> bucket = [] then
                  (Inl (Error ''Missing required parameters: s3Key and bucketName''), w)
                else
                  (case analyzeAudioFile env w key bucket of
                     (Inl e, w1) \<Rightarrow> (Inl e, w1)
                   | (Inr audioInfo, w1) \<Rightarrow>
                       (if js_le (info_duration audioInfo) fourHoursInSeconds then
                          (Inr \<lparr>statusCode = 200,
                                body = NoSplitNeeded (info_duration audioInfo)
                                         ''File is within AWS Transcribe limits''\<rparr>, w1)
                        else splitAndPublish env w1 key bucket audioInfo)))
           | _ \<Rightarrow> (Inl (Error ''Missing required parameters: s3Key and bucketName''), w)))"

text \<open>
  What \<open>JSON.stringify(event, null, 2)\<close> throws, if anything. The call stands in the first
  statement of the handler, before the \<open>try\<close> block.
\<close>

fun stringifyError :: "event \<Rightarrow> string option" where
  "stringifyError NullEvent = None"
| "stringifyError UndefinedEvent = None"
| "stringifyError (ObjectEvent s3Key bucketName unloggable) = unloggable"

text \<open>
  The handler. \<open>Inl\<close> is an error that leaves the handler (the promise it returns is
  rejected); \<open>Inr\<close> is the response it returns.
\<close>

definition handler :: "env \<Rightarrow> world \<Rightarrow> event \<Rightarrow> (jserror + response) \<times> world" where
  "handler env w ev =
     (case stringifyError ev of
        Some m \<Rightarrow> (Inl (Error m), w)
      | None \<Rightarrow>
          (case handlerTry env w ev of
             (Inr r, w') \<Rightarrow> (Inr r, w')
           | (Inl e, w') \<Rightarrow> (Inr \<lparr>statusCode = 500, body = ErrorBody (message e)\<rparr>, w')))"

text \<open>An event lacks a parameter when it has no \<open>s3Key\<close> or no \<open>bucketName\<close>, or an empty one.\<close>

fun lacksParameter :: "event \<Rightarrow> bool" where
  "lacksParameter NullEvent = True"
| "lacksParameter UndefinedEvent = True"
| "lacksParameter (ObjectEvent s3Key bucketName unloggable) =
     (s3Key = None \<or> s3Key = Some [] \<or> bucketName = None \<or> bucketName = Some [])"

subsection \<open>Reading the trace\<close>

definition newCalls :: "world \<Rightarrow> world \<Rightarrow> call list" where
  "newCalls w w' = drop (length (trace w)) (trace w')"

fun is_put :: "call \<Rightarrow> bool" where
  "is_put (S3PutObject b k orig idx start dur) = True"
| "is_put c = False"

fun is_transcode :: "call \<Rightarrow> bool" where
  "is_transcode (FfmpegSave inp seek dur out) = True"
| "is_transcode c = False"

fun is_submit :: "call \<Rightarrow> bool" where
  "is_submit (StartTranscriptionJob params) = True"
| "is_submit c = False"

text \<open>The (seekInput, duration) pairs handed to ffmpeg, in the order of the calls.\<close>

fun transcodeRequests :: "call list \<Rightarrow> (real \<times> real) list" where
  "transcodeRequests [] = []"
| "transcodeRequests (FfmpegSave inp seek dur out # cs) = (seek, dur) # transcodeRequests cs"
| "transcodeRequests (c # cs) = transcodeRequests cs"

text \<open>The window a segment record describes: index, start and length.\<close>

definition window :: "segment \<Rightarrow> nat \<times> real \<times> real" where
  "window s = (seg_index s, seg_startTime s, seg_duration s)"

text \<open>
  The submission made for \<open>seg\<close> when \<open>n\<close> calls have been made before it, and the entry
  pushed when it succeeds.
\<close>

definition jobNameAt :: "env \<Rightarrow> nat \<Rightarrow> segmentUrl \<Rightarrow> string" where
  "jobNameAt env n seg =
     ''boardbreeze-segment-'' @ string_of_nat (su_index seg) @ ''-'' @ string_of_nat (clock env n)"

definition submission :: "env \<Rightarrow> nat \<Rightarrow> segmentUrl \<Rightarrow> call" where
  "submission env n seg = StartTranscriptionJob (jobParams (jobNameAt env n seg) seg)"

definition startedJob :: "env \<Rightarrow> nat \<Rightarrow> segmentUrl \<Rightarrow> transcriptionJob" where
  "startedJob env n seg =
     \<lparr>job_jobName = jobNameAt env n seg, job_segmentIndex = su_index seg, job_status = ''STARTED''\<rparr>"

subsection \<open>Example runs\<close>

text \<open>
  A bucket holding one recording, an empty /tmp, and an outside world whose clock reads 7,
  whose ffprobe reports the duration \<open>d\<close> and whose calls fail as \<open>f\<close> says.
\<close>

definition noFault :: "nat \<Rightarrow> call \<Rightarrow> string option" where
  "noFault n c = None"

definition putFaultAt :: "nat \<Rightarrow> nat \<Rightarrow> call \<Rightarrow> string option" where
  "putFaultAt k n c =
     (case c of S3PutObject b key orig idx start dur \<Rightarrow> (if idx = k then Some ''AccessDenied'' else None)
      | _ \<Rightarrow> None)"

definition probeFault :: "nat \<Rightarrow> call \<Rightarrow> string option" where
  "probeFault n c = (case c of Ffprobe p \<Rightarrow> Some ''Invalid data found when processing input'' | _ \<Rightarrow> None)"

definition faultAtCall :: "nat \<Rightarrow> nat \<Rightarrow> call \<Rightarrow> string option" where
  "faultAtCall k n c = (if n = k then Some ''LimitExceededException'' else None)"

definition demoEnv :: "real \<Rightarrow> (nat \<Rightarrow> call \<Rightarrow> string option) \<Rightarrow> env" where
  "demoEnv d f =
     \<lparr>fault = f, clock = (\<lambda>n. 7),
      probe = (\<lambda>b. \<lparr>info_duration = Num d, info_size = int (length b), info_format = ''mp3''\<rparr>),
      encode = (\<lambda>b seek dur. b)\<rparr>"

text \<open>The same outside world with an ffprobe that reports no duration.\<close>

definition nanEnv :: env where
  "nanEnv =
     \<lparr>fault = noFault, clock = (\<lambda>n. 7),
      probe = (\<lambda>b. \<lparr>info_duration = NaN, info_size = int (length b), info_format = ''mp3''\<rparr>),
      encode = (\<lambda>b seek dur. b)\<rparr>"

definition demoWorld :: world where
  "demoWorld =
     \<lparr>objects = [(''bucket'', ''meeting.mp3'') \<mapsto> [1, 2, 3]], files = Map.empty, trace = []\<rparr>"

definition demoEvent :: event where
  "demoEvent = ObjectEvent (Some ''meeting.mp3'') (Some ''bucket'') None"

definition demoSegment :: "nat \<Rightarrow> real \<Rightarrow> segment" where
  "demoSegment i len =
     \<lparr>seg_index = i, seg_path = ''/tmp/segment_'' @ string_of_nat i @ ''_7.mp3'',
      seg_startTime = real i * segmentDuration, seg_duration = len\<rparr>"

definition demoUrl :: "nat \<Rightarrow> segmentUrl" where
  "demoUrl i =
     \<lparr>su_url = ''s3://bucket/'' @ segmentKey ''meeting.mp3'' i, su_key = segmentKey ''meeting.mp3'' i,
      su_index = i, su_startTime = real i * segmentDuration, su_duration = segmentDuration\<rparr>"

section \<open>Properties\<close>

lemma segmentDuration_value: "segmentDuration = 12600"
  by (simp add: segmentDuration_def)

subsection \<open>Unfolding the definitions\<close>

lemmas prim_defs = s3_getObject_def s3_putObject_def fs_writeFile_def fs_readFile_def fs_unlink_def
  ffprobe_def ffmpeg_save_def startTranscriptionJob_def record_call_def Date_now_def

lemmas demo_defs = demoEnv_def nanEnv_def demoWorld_def demoEvent_def noFault_def putFaultAt_def
  probeFault_def faultAtCall_def demoUrl_def demoSegment_def

lemmas run_defs = handler_def handlerTry_def analyzeAudioFile_def splitAndPublish_def splitAudioFile_def
  splitAudioFileNum_def js_le_def js_gt_def splitAudioFileWith_def segmentDuration_def fourHoursInSeconds_def uploadSegments_def segmentKey_def publishSegment_def
  triggerTranscriptionJobs_def jobParams_def splitLoop.simps string_of_nat.simps digit_char_def Let_def
  newCalls_def


subsection \<open>Effects of the primitive calls\<close>

lemma s3_getObject_effect:
  "s3_getObject env w b k = (r, w') \<Longrightarrow> w' = record_call w (S3GetObject b k)"
  by (auto simp: s3_getObject_def Let_def split: option.splits)

lemma fs_readFile_effect:
  "fs_readFile env w p = (r, w') \<Longrightarrow> w' = record_call w (FsReadFile p)"
  by (auto simp: fs_readFile_def Let_def split: option.splits)

lemma ffprobe_effect:
  "ffprobe env w p = (r, w') \<Longrightarrow> w' = record_call w (Ffprobe p)"
  by (auto simp: ffprobe_def Let_def split: option.splits)

lemma fs_writeFile_effect:
  "fs_writeFile env w p data = (r, w') \<Longrightarrow>
     trace w' = trace w @ [FsWriteFile p] \<and> objects w' = objects w"
  by (auto simp: fs_writeFile_def record_call_def Let_def split: option.splits)

lemma fs_unlink_effect:
  "fs_unlink env w p = (r, w') \<Longrightarrow>
     trace w' = trace w @ [FsUnlink p] \<and> objects w' = objects w"
  by (auto simp: fs_unlink_def record_call_def Let_def split: option.splits)

lemma ffmpeg_save_effect:
  "ffmpeg_save env w inp seek dur out = (r, w') \<Longrightarrow>
     trace w' = trace w @ [FfmpegSave inp seek dur out] \<and> objects w' = objects w"
  by (auto simp: ffmpeg_save_def record_call_def Let_def split: option.splits)

lemma s3_putObject_effect:
  "s3_putObject env w b k data orig idx st du = (r, w') \<Longrightarrow>
     trace w' = trace w @ [S3PutObject b k orig idx st du] \<and> files w' = files w \<and>
     objects w' = (if isl r then objects w else (objects w)((b, k) \<mapsto> data))"
  by (auto simp: s3_putObject_def record_call_def Let_def split: option.splits)

lemma record_call_sel:
  "trace (record_call w c) = trace w @ [c]"
  "objects (record_call w c) = objects w"
  "files (record_call w c) = files w"
  by (simp_all add: record_call_def)

subsection \<open>The loop of splitAudioFile, one iteration at a time\<close>

lemma splitLoop_cases:
  assumes "splitLoop env L T n inp i segs w = (r, w')"
  obtains (stop) "\<not> int i < n" "r = Inr segs" "w' = w"
  | (fail) p e where "int i < n" "ffmpeg_save env w inp (real i * L) L p = (Inl e, w')" "r = Inl e"
  | (step) p u w1 where "int i < n" "ffmpeg_save env w inp (real i * L) L p = (Inr u, w1)"
      "splitLoop env L T n inp (Suc i)
         (segs @ [\<lparr>seg_index = i, seg_path = p, seg_startTime = real i * L,
                   seg_duration = min L (T - real i * L)\<rparr>]) w1 = (r, w')"
  using assms
  by (subst (asm) splitLoop.simps) (auto simp: Let_def split: if_splits prod.splits sum.splits)

lemma splitLoop_stop:
  "\<not> int i < n \<Longrightarrow> splitLoop env L T n inp i segs w = (Inr segs, w)"
  by (simp add: splitLoop.simps)

lemma splitLoop_frame:
  "splitLoop env L T n inp i segs w = (r, w') \<Longrightarrow>
     objects w' = objects w \<and> (\<exists>cs. trace w' = trace w @ cs \<and> list_all is_transcode cs)"
proof (induction "nat (n - int i)" arbitrary: i segs w)
  case 0
  then show ?case by (simp add: splitLoop_stop)
next
  case (Suc k)
  from Suc.prems show ?case
  proof (cases rule: splitLoop_cases)
    case stop
    then show ?thesis by simp
  next
    case (fail p e)
    then show ?thesis by (auto dest!: ffmpeg_save_effect)
  next
    case (step p u w1)
    from Suc.hyps(2) have "k = nat (n - int (Suc i))" by simp
    from Suc.hyps(1)[OF this step(3)] step(2) show ?thesis
      by (auto dest!: ffmpeg_save_effect)
  qed
qed

lemma transcodeRequests_append:
  "transcodeRequests (xs @ ys) = transcodeRequests xs @ transcodeRequests ys"
  by (induction xs rule: transcodeRequests.induct) simp_all

lemma splitLoop_result:
  "splitLoop env L T n inp i segs w = (Inr out, w') \<Longrightarrow>
     map window out = map window segs @ map (\<lambda>j. (j, real j * L, min L (T - real j * L))) [i..<nat n] \<and>
     transcodeRequests (trace w') = transcodeRequests (trace w) @ map (\<lambda>j. (real j * L, L)) [i..<nat n]"
proof (induction "nat (n - int i)" arbitrary: i segs w)
  case 0
  then show ?case by (simp add: splitLoop_stop)
next
  case (Suc k)
  from Suc.prems show ?case
  proof (cases rule: splitLoop_cases)
    case stop
    then show ?thesis by simp
  next
    case (fail p e)
    then show ?thesis by simp
  next
    case (step p u w1)
    from Suc.hyps(2) have k: "k = nat (n - int (Suc i))" by simp
    from step(1) have up: "[i..<nat n] = i # [Suc i..<nat n]"
      by (simp add: upt_conv_Cons)
    from Suc.hyps(1)[OF k step(3)] step(2) up show ?thesis
      by (auto dest!: ffmpeg_save_effect simp: window_def transcodeRequests_append)
  qed
qed


subsection \<open>Arithmetic of the plan\<close>

lemma full_windows_sum:
  "(\<And>j. j < k \<Longrightarrow> L \<le> T - real j * L) \<Longrightarrow>
     sum_list (map (\<lambda>j. min L (T - real j * L)) [0..<k]) = real k * L"
  by (induction k) (simp_all add: algebra_simps min_def)

lemma ceiling_pos_nat:
  fixes T L :: real
  assumes "0 < T" "0 < L"
  shows "0 < \<lceil>T / L\<rceil>" and "real (nat \<lceil>T / L\<rceil>) = of_int \<lceil>T / L\<rceil>"
proof -
  from assms have "0 < T / L" by simp
  then show "0 < \<lceil>T / L\<rceil>" by simp
  then show "real (nat \<lceil>T / L\<rceil>) = of_int \<lceil>T / L\<rceil>" by simp
qed

lemma window_before_last:
  fixes T L :: real
  assumes "0 < L" "Suc j < nat \<lceil>T / L\<rceil>"
  shows "L \<le> T - real j * L"
proof -
  from assms(2) have "int (Suc j) < \<lceil>T / L\<rceil>" by linarith
  then have "real (Suc j) < T / L" by (simp add: less_ceiling_iff)
  with assms(1) have "real (Suc j) * L < T" by (simp add: pos_less_divide_eq)
  then show ?thesis by (simp add: algebra_simps)
qed

lemma window_inside:
  fixes T L :: real
  assumes "0 < L" "j < nat \<lceil>T / L\<rceil>"
  shows "real j * L < T"
proof -
  from assms(2) have "int j < \<lceil>T / L\<rceil>" by linarith
  then have "real j < T / L" by (simp add: less_ceiling_iff)
  with assms(1) show ?thesis by (simp add: pos_less_divide_eq)
qed

lemma last_window_short:
  fixes T L :: real
  assumes "0 < L" "0 < T"
  shows "T - real (nat \<lceil>T / L\<rceil> - 1) * L \<le> L"
proof -
  from ceiling_pos_nat(1)[OF assms(2,1)] obtain m where "\<lceil>T / L\<rceil> = int m" "0 < m"
    using zero_less_imp_eq_int by blast
  then obtain m' where m: "\<lceil>T / L\<rceil> = int (Suc m')"
    by (cases m) auto
  have "T \<le> of_int \<lceil>T / L\<rceil> * L"
    unfolding pos_divide_le_eq[OF assms(1), symmetric] by (rule le_of_int_ceiling)
  then have "T \<le> (real m' + 1) * L"
    by (simp add: m add.commute)
  moreover have "nat \<lceil>T / L\<rceil> - 1 = m'"
    by (simp add: m)
  ultimately show ?thesis
    by (simp add: algebra_simps)
qed

lemma plan_sum:
  fixes T L :: real
  assumes "0 < T" "0 < L"
  shows "sum_list (map (\<lambda>j. min L (T - real j * L)) [0..<nat \<lceil>T / L\<rceil>]) = T"
proof -
  define k where "k = nat \<lceil>T / L\<rceil> - 1"
  from ceiling_pos_nat(1)[OF assms] have n: "nat \<lceil>T / L\<rceil> = Suc k" by (simp add: k_def)
  have "sum_list (map (\<lambda>j. min L (T - real j * L)) [0..<k]) = real k * L"
    by (rule full_windows_sum) (rule window_before_last[OF assms(2)], simp add: n)
  moreover from last_window_short[OF assms(2,1)] have "min L (T - real k * L) = T - real k * L"
    by (simp add: k_def min_def)
  ultimately show ?thesis by (simp add: n)
qed


subsection \<open>The segment plan\<close>

lemma splitAudioFileWith_Inr:
  assumes "splitAudioFileWith L env w key bucket T = (Inr segs, w')"
  obtains b w1 u w2 w3 u' where
    "s3_getObject env w bucket key = (Inr b, w1)"
    "fs_writeFile env w1 (''/tmp/input_'' @ string_of_nat (Date_now env w) @ ''.mp3'') b = (Inr u, w2)"
    "splitLoop env L T \<lceil>T / L\<rceil> (''/tmp/input_'' @ string_of_nat (Date_now env w) @ ''.mp3'') 0 [] w2 = (Inr segs, w3)"
    "fs_unlink env w3 (''/tmp/input_'' @ string_of_nat (Date_now env w) @ ''.mp3'') = (Inr u', w')"
  using assms unfolding splitAudioFileWith_def Let_def
  by (auto split: prod.splits sum.splits)

lemma splitAudioFileWith_success:
  assumes "splitAudioFileWith L env w key bucket T = (Inr segs, w')"
  shows "map window segs = map (\<lambda>j. (j, real j * L, min L (T - real j * L))) [0..<nat \<lceil>T / L\<rceil>]"
    and "transcodeRequests (trace w') =
           transcodeRequests (trace w) @ map (\<lambda>j. (real j * L, L)) [0..<nat \<lceil>T / L\<rceil>]"
proof -
  from assms obtain b w1 u w2 w3 u' where
    get: "s3_getObject env w bucket key = (Inr b, w1)" and
    wr: "fs_writeFile env w1 (''/tmp/input_'' @ string_of_nat (Date_now env w) @ ''.mp3'') b = (Inr u, w2)" and
    loop: "splitLoop env L T \<lceil>T / L\<rceil> (''/tmp/input_'' @ string_of_nat (Date_now env w) @ ''.mp3'') 0 [] w2 = (Inr segs, w3)" and
    ul: "fs_unlink env w3 (''/tmp/input_'' @ string_of_nat (Date_now env w) @ ''.mp3'') = (Inr u', w')"
    by (rule splitAudioFileWith_Inr)
  from splitLoop_result[OF loop]
  show "map window segs = map (\<lambda>j. (j, real j * L, min L (T - real j * L))) [0..<nat \<lceil>T / L\<rceil>]"
    by simp
  from splitLoop_result[OF loop] s3_getObject_effect[OF get] fs_writeFile_effect[OF wr] fs_unlink_effect[OF ul]
  show "transcodeRequests (trace w') =
           transcodeRequests (trace w) @ map (\<lambda>j. (real j * L, L)) [0..<nat \<lceil>T / L\<rceil>]"
    by (simp add: transcodeRequests_append record_call_sel)
qed

lemma fst_snd_pair: "fst p = a \<Longrightarrow> p = (a, snd p)"
  by (cases p) simp

lemma ffmpeg_save_succeeds:
  assumes "fault env (length (trace w)) (FfmpegSave inp seek dur out) = None"
    and "files w inp \<noteq> None"
  shows "\<exists>w1. ffmpeg_save env w inp seek dur out = (Inr (), w1) \<and> files w1 inp \<noteq> None"
  using assms by (auto simp: ffmpeg_save_def Let_def record_call_def)

lemma splitLoop_succeeds:
  assumes "\<forall>n c. fault env n c = None"
  shows "files w inp \<noteq> None \<Longrightarrow>
         \<exists>out w'. splitLoop env L T n inp i segs w = (Inr out, w') \<and> files w' inp \<noteq> None"
proof (induction "nat (n - int i)" arbitrary: i segs w)
  case 0
  then show ?case by (simp add: splitLoop_stop)
next
  case (Suc k)
  from Suc.hyps(2) have lt: "int i < n" and k: "k = nat (n - int (Suc i))" by simp_all
  let ?p = "''/tmp/segment_'' @ string_of_nat i @ ''_'' @ string_of_nat (Date_now env w) @ ''.mp3''"
  from assms have "fault env (length (trace w)) (FfmpegSave inp (real i * L) L ?p) = None"
    by simp
  from ffmpeg_save_succeeds[OF this Suc.prems] obtain w1 where
    step: "ffmpeg_save env w inp (real i * L) L ?p = (Inr (), w1)" and keep: "files w1 inp \<noteq> None"
    by blast
  from Suc.hyps(1)[OF k keep] obtain out w' where
    "splitLoop env L T n inp (Suc i)
       (segs @ [\<lparr>seg_index = i, seg_path = ?p, seg_startTime = real i * L,
                 seg_duration = min L (T - real i * L)\<rparr>]) w1 = (Inr out, w')"
    and "files w' inp \<noteq> None"
    by blast
  with lt step show ?case
    by (subst splitLoop.simps) (simp add: Let_def)
qed

lemma split_succeeds_without_faults:
  assumes "\<forall>n c. fault env n c = None" and "objects w (bucket, key) \<noteq> None"
  shows "\<exists>segs. fst (splitAudioFileWith segDur env w key bucket totalDuration) = Inr segs"
proof -
  let ?p = "''/tmp/input_'' @ string_of_nat (Date_now env w) @ ''.mp3''"
  from assms(2) obtain b where b: "objects w (bucket, key) = Some b" by blast
  let ?w1 = "record_call w (S3GetObject bucket key)"
  let ?w2 = "(record_call ?w1 (FsWriteFile ?p))\<lparr>files := (files ?w1)(?p \<mapsto> b)\<rparr>"
  from assms(1) b have get: "s3_getObject env w bucket key = (Inr b, ?w1)"
    by (simp add: s3_getObject_def Let_def)
  from assms(1) have wr: "fs_writeFile env ?w1 ?p b = (Inr (), ?w2)"
    by (simp add: fs_writeFile_def Let_def record_call_def)
  have "files ?w2 ?p \<noteq> None" by (simp add: record_call_def)
  from splitLoop_succeeds[OF assms(1) this] obtain out w3 where
    loop: "splitLoop env segDur totalDuration \<lceil>totalDuration / segDur\<rceil> ?p 0 [] ?w2 = (Inr out, w3)"
    and keep: "files w3 ?p \<noteq> None"
    by blast
  from assms(1) keep obtain w4 where ul: "fs_unlink env w3 ?p = (Inr (), w4)"
    by (auto simp: fs_unlink_def Let_def)
  from get wr loop ul have "fst (splitAudioFileWith segDur env w key bucket totalDuration) = Inr out"
    by (simp add: splitAudioFileWith_def Let_def)
  then show ?thesis ..
qed

lemma split_plan_windows:
  assumes "0 < totalDuration" and "0 < segDur"
    and "fst (splitAudioFileWith segDur env w key bucket totalDuration) = Inr segs"
  shows "length segs = nat \<lceil>totalDuration / segDur\<rceil> \<and>
         (\<forall>i<length segs.
            seg_index (segs ! i) = i \<and> seg_startTime (segs ! i) = real i * segDur \<and>
            seg_duration (segs ! i) = min segDur (totalDuration - seg_startTime (segs ! i)) \<and>
            0 < seg_duration (segs ! i)) \<and>
         (\<forall>i. Suc i < length segs \<longrightarrow>
            seg_startTime (segs ! Suc i) = seg_startTime (segs ! i) + seg_duration (segs ! i)) \<and>
         sum_list (map seg_duration segs) = totalDuration"
proof -
  let ?n = "nat \<lceil>totalDuration / segDur\<rceil>"
  let ?f = "\<lambda>j. (j, real j * segDur, min segDur (totalDuration - real j * segDur))"
  from splitAudioFileWith_success(1)[OF fst_snd_pair[OF assms(3)]]
  have plan: "map window segs = map ?f [0..<?n]" .
  from arg_cong[OF plan, of length] have len: "length segs = ?n"
    by simp
  have at: "window (segs ! i) = ?f i" if "i < length segs" for i
  proof -
    from that have "window (segs ! i) = map window segs ! i" by simp
    also from that len have "\<dots> = ?f i" by (simp add: plan)
    finally show ?thesis .
  qed
  have win: "seg_index (segs ! i) = i \<and> seg_startTime (segs ! i) = real i * segDur \<and>
             seg_duration (segs ! i) = min segDur (totalDuration - real i * segDur)"
    if "i < length segs" for i
    using at[OF that] by (simp add: window_def)
  have pos: "0 < seg_duration (segs ! i)" if "i < length segs" for i
  proof -
    from that len have "real i * segDur < totalDuration"
      by (intro window_inside[OF assms(2)]) simp
    with win[OF that] assms(2) show ?thesis by simp
  qed
  have contig: "seg_startTime (segs ! Suc i) = seg_startTime (segs ! i) + seg_duration (segs ! i)"
    if "Suc i < length segs" for i
  proof -
    from that len have "segDur \<le> totalDuration - real i * segDur"
      by (intro window_before_last[OF assms(2)]) simp
    with win[of i] win[of "Suc i"] that show ?thesis by (simp add: algebra_simps)
  qed
  have "map seg_duration segs = map (\<lambda>s. snd (snd s)) (map window segs)"
    by (simp add: window_def)
  also have "\<dots> = map (\<lambda>j. min segDur (totalDuration - real j * segDur)) [0..<?n]"
    by (simp add: plan)
  finally have total: "sum_list (map seg_duration segs) = totalDuration"
    by (simp add: plan_sum[OF assms(1,2)])
  show ?thesis
  proof (intro conjI allI impI)
    show "length segs = ?n" by (rule len)
  next
    fix i assume "i < length segs"
    then show "seg_index (segs ! i) = i" and "seg_startTime (segs ! i) = real i * segDur"
      and "seg_duration (segs ! i) = min segDur (totalDuration - seg_startTime (segs ! i))"
      and "0 < seg_duration (segs ! i)"
      using win[of i] pos[of i] by simp_all
  next
    fix i assume "Suc i < length segs"
    then show "seg_startTime (segs ! Suc i) = seg_startTime (segs ! i) + seg_duration (segs ! i)"
      by (rule contig)
  next
    show "sum_list (map seg_duration segs) = totalDuration" by (rule total)
  qed
qed


text \<open>
  Claim C1. For every total duration and segment length above zero, the split of a source
  object that exists returns a plan when no external call fails, and a split that returns has
  made exactly \<open>ceil(totalDuration / segDur)\<close> windows; window \<open>i\<close> has index \<open>i\<close>, starts
  at \<open>i * segDur\<close> and is \<open>min(segDur, totalDuration - start)\<close> long, which is above zero;
  each window starts where the one before ends; and the lengths add up to the total duration.
  The source fixes \<open>segDur\<close> to 12600 (\<open>splitAudioFile\<close>).
\<close>

theorem splitAudioFile_plan:
  assumes "0 < totalDuration" and "0 < segDur"
  shows "((\<forall>n c. fault env n c = None) \<and> objects w (bucket, key) \<noteq> None \<longrightarrow>
            (\<exists>segs. fst (splitAudioFileWith segDur env w key bucket totalDuration) = Inr segs)) \<and>
         (\<forall>segs. fst (splitAudioFileWith segDur env w key bucket totalDuration) = Inr segs \<longrightarrow>
            length segs = nat \<lceil>totalDuration / segDur\<rceil> \<and>
            (\<forall>i<length segs.
               seg_index (segs ! i) = i \<and> seg_startTime (segs ! i) = real i * segDur \<and>
               seg_duration (segs ! i) = min segDur (totalDuration - seg_startTime (segs ! i)) \<and>
               0 < seg_duration (segs ! i)) \<and>
            (\<forall>i. Suc i < length segs \<longrightarrow>
               seg_startTime (segs ! Suc i) = seg_startTime (segs ! i) + seg_duration (segs ! i)) \<and>
            sum_list (map seg_duration segs) = totalDuration)"
proof (rule conjI)
  show "(\<forall>n c. fault env n c = None) \<and> objects w (bucket, key) \<noteq> None \<longrightarrow>
          (\<exists>segs. fst (splitAudioFileWith segDur env w key bucket totalDuration) = Inr segs)"
  proof (rule impI)
    assume "(\<forall>n c. fault env n c = None) \<and> objects w (bucket, key) \<noteq> None"
    then show "\<exists>segs. fst (splitAudioFileWith segDur env w key bucket totalDuration) = Inr segs"
      by (intro split_succeeds_without_faults) simp_all
  qed
next
  show "\<forall>segs. fst (splitAudioFileWith segDur env w key bucket totalDuration) = Inr segs \<longrightarrow>
            length segs = nat \<lceil>totalDuration / segDur\<rceil> \<and>
            (\<forall>i<length segs.
               seg_index (segs ! i) = i \<and> seg_startTime (segs ! i) = real i * segDur \<and>
               seg_duration (segs ! i) = min segDur (totalDuration - seg_startTime (segs ! i)) \<and>
               0 < seg_duration (segs ! i)) \<and>
            (\<forall>i. Suc i < length segs \<longrightarrow>
               seg_startTime (segs ! Suc i) = seg_startTime (segs ! i) + seg_duration (segs ! i)) \<and>
            sum_list (map seg_duration segs) = totalDuration"
    (is "\<forall>segs. ?H segs \<longrightarrow> ?Q segs")
  proof (rule allI, rule impI)
    fix segs
    assume "?H segs"
    then show "?Q segs" by (rule split_plan_windows[OF assms])
  qed
qed

text \<open>The run on a recording of seven hours: two windows of three and a half hours.\<close>

theorem splitAudioFile_plan_witness:
  "(0::real) < 25200 \<and> 0 < segmentDuration \<and>
   fst (splitAudioFile (demoEnv 25200 noFault) demoWorld ''meeting.mp3'' ''bucket'' 25200) =
     Inr [demoSegment 0 12600, demoSegment 1 12600] \<and>
   length [demoSegment 0 12600, demoSegment 1 12600] = nat \<lceil>25200 / segmentDuration\<rceil> \<and>
   map window [demoSegment 0 12600, demoSegment 1 12600] = [(0, 0, 12600), (1, 12600, 12600)] \<and>
   sum_list (map seg_duration [demoSegment 0 12600, demoSegment 1 12600]) = 25200"
proof -
  have h1: "(0::real) < 25200" by simp
  have h2: "0 < segmentDuration" by (simp add: segmentDuration_def)
  have run: "fst (splitAudioFileWith segmentDuration (demoEnv 25200 noFault) demoWorld
                    ''meeting.mp3'' ''bucket'' 25200) = Inr [demoSegment 0 12600, demoSegment 1 12600]"
    by (simp add: run_defs prim_defs demo_defs)
  from splitAudioFile_plan[OF h1 h2, THEN conjunct2, rule_format, OF run] h2 run show ?thesis
    by (simp add: splitAudioFile_def window_def demoSegment_def segmentDuration_def)
qed

lemma split_window_at:
  assumes "fst (splitAudioFileWith segDur env w key bucket totalDuration) = Inr segs"
  shows "length segs = nat \<lceil>totalDuration / segDur\<rceil>"
    and "i < length segs \<Longrightarrow>
           window (segs ! i) = (i, real i * segDur, min segDur (totalDuration - real i * segDur))"
proof -
  let ?n = "nat \<lceil>totalDuration / segDur\<rceil>"
  from splitAudioFileWith_success(1)[OF fst_snd_pair[OF assms]]
  have plan: "map window segs =
      map (\<lambda>j. (j, real j * segDur, min segDur (totalDuration - real j * segDur))) [0..<?n]" .
  from arg_cong[OF plan, of length] show len: "length segs = ?n"
    by simp
  assume i: "i < length segs"
  then have "window (segs ! i) = map window segs ! i" by simp
  also from i len have "\<dots> = (i, real i * segDur, min segDur (totalDuration - real i * segDur))"
    by (simp add: plan)
  finally show "window (segs ! i) = (i, real i * segDur, min segDur (totalDuration - real i * segDur))" .
qed

subsection \<open>What the transcoder is asked for\<close>

text \<open>
  Claim C7, as amended. For every window of the plan the seek offset handed to ffmpeg is the
  window's start, and the duration handed to it is the nominal segment length \<open>segDur\<close>, for
  the last window too. The nominal length is the window's length for every window but the
  last, and it is never less than the window's length.
\<close>

theorem transcode_requests_nominal_length:
  assumes "0 < totalDuration" and "0 < segDur"
    and "fst (splitAudioFileWith segDur env w key bucket totalDuration) = Inr segs"
  shows "transcodeRequests (trace (snd (splitAudioFileWith segDur env w key bucket totalDuration))) =
           transcodeRequests (trace w) @ map (\<lambda>s. (seg_startTime s, segDur)) segs \<and>
         (\<forall>i. Suc i < length segs \<longrightarrow> seg_duration (segs ! i) = segDur) \<and>
         list_all (\<lambda>s. seg_duration s \<le> segDur) segs"
proof (intro conjI allI impI)
  let ?n = "nat \<lceil>totalDuration / segDur\<rceil>"
  note run = fst_snd_pair[OF assms(3)]
  have "map (\<lambda>s. (seg_startTime s, segDur)) segs = map (\<lambda>p. (fst (snd p), segDur)) (map window segs)"
    by (simp add: window_def)
  also have "\<dots> = map (\<lambda>j. (real j * segDur, segDur)) [0..<?n]"
    by (simp add: splitAudioFileWith_success(1)[OF run])
  finally show "transcodeRequests (trace (snd (splitAudioFileWith segDur env w key bucket totalDuration))) =
           transcodeRequests (trace w) @ map (\<lambda>s. (seg_startTime s, segDur)) segs"
    by (simp add: splitAudioFileWith_success(2)[OF run])
next
  fix i assume i: "Suc i < length segs"
  with split_window_at(1)[OF assms(3)] have "segDur \<le> totalDuration - real i * segDur"
    by (intro window_before_last[OF assms(2)]) simp
  moreover from i split_window_at(2)[OF assms(3), of i]
  have "seg_duration (segs ! i) = min segDur (totalDuration - real i * segDur)"
    by (simp add: window_def)
  ultimately show "seg_duration (segs ! i) = segDur" by simp
next
  show "list_all (\<lambda>s. seg_duration s \<le> segDur) segs"
    unfolding list_all_length
  proof (intro allI impI)
    fix i assume "i < length segs"
    from split_window_at(2)[OF assms(3) this] show "seg_duration (segs ! i) \<le> segDur"
      by (simp add: window_def)
  qed
qed

text \<open>A recording of 20000 seconds: both requests ask for 12600 seconds.\<close>

theorem transcode_requests_nominal_length_witness:
  "(0::real) < 20000 \<and> 0 < segmentDuration \<and>
   fst (splitAudioFile (demoEnv 20000 noFault) demoWorld ''meeting.mp3'' ''bucket'' 20000) =
     Inr [demoSegment 0 12600, demoSegment 1 7400] \<and>
   transcodeRequests (trace (snd (splitAudioFile (demoEnv 20000 noFault) demoWorld ''meeting.mp3'' ''bucket'' 20000))) =
     [(0, segmentDuration), (12600, segmentDuration)] \<and>
   seg_duration (demoSegment 0 12600) = segmentDuration \<and>
   seg_duration (demoSegment 1 7400) \<le> segmentDuration"
proof -
  have h1: "(0::real) < 20000" by simp
  have h2: "0 < segmentDuration" by (simp add: segmentDuration_def)
  have run: "fst (splitAudioFileWith segmentDuration (demoEnv 20000 noFault) demoWorld
                    ''meeting.mp3'' ''bucket'' 20000) = Inr [demoSegment 0 12600, demoSegment 1 7400]"
    by (simp add: run_defs prim_defs demo_defs)
  from transcode_requests_nominal_length[OF h1 h2 run] h2 run show ?thesis
    by (simp add: splitAudioFile_def demoSegment_def demoWorld_def segmentDuration_def)
qed

text \<open>
  Claim C7 as stated fails there: the second window is 7400 seconds long and the duration
  requested for it is 12600.
\<close>

theorem transcode_request_last_window_counterexample:
  "fst (splitAudioFile (demoEnv 20000 noFault) demoWorld ''meeting.mp3'' ''bucket'' 20000) =
     Inr [demoSegment 0 12600, demoSegment 1 7400] \<and>
   transcodeRequests (trace (snd (splitAudioFile (demoEnv 20000 noFault) demoWorld ''meeting.mp3'' ''bucket'' 20000))) =
     [(0, 12600), (12600, 12600)] \<and>
   map (\<lambda>s. (seg_startTime s, seg_duration s)) [demoSegment 0 12600, demoSegment 1 7400] =
     [(0, 12600), (12600, 7400)]"
  by (simp add: run_defs prim_defs demo_defs)

subsection \<open>A duration that is not positive\<close>

lemma ceiling_nonpos: "totalDuration \<le> 0 \<Longrightarrow> \<not> 0 < \<lceil>totalDuration / segmentDuration\<rceil>"
  by (simp add: segmentDuration_def ceiling_le_zero divide_nonpos_pos)

text \<open>
  Claim C9, as amended. For a total duration of zero or less the split raises no error of its
  own: the loop does not run, no transcoding is requested, a split that returns returns the
  empty list, and it does return it when no external call fails and the source object exists.
  The segment length is the constant 12600, which is above zero.
\<close>

theorem split_nonpositive_duration:
  assumes "totalDuration \<le> 0"
  shows "(\<forall>segs. fst (splitAudioFile env w key bucket totalDuration) = Inr segs \<longrightarrow> segs = []) \<and>
         transcodeRequests (trace (snd (splitAudioFile env w key bucket totalDuration))) =
           transcodeRequests (trace w) \<and>
         ((\<forall>n c. fault env n c = None) \<and> objects w (bucket, key) \<noteq> None \<longrightarrow>
            fst (splitAudioFile env w key bucket totalDuration) = Inr []) \<and>
         0 < segmentDuration"
proof -
  have stop: "splitLoop env segmentDuration totalDuration \<lceil>totalDuration / segmentDuration\<rceil> p 0 [] w2 = (Inr [], w2)" for p w2
    using ceiling_nonpos[OF assms] by (simp add: splitLoop_stop)
  show ?thesis
    unfolding splitAudioFile_def splitAudioFileWith_def Let_def stop
    by (auto simp: prim_defs Let_def transcodeRequests_append segmentDuration_def
             split: prod.splits sum.splits option.splits)
qed

theorem split_nonpositive_duration_witness:
  "(0::real) \<le> 0 \<and>
   fst (splitAudioFile (demoEnv 0 noFault) demoWorld ''meeting.mp3'' ''bucket'' 0) = Inr [] \<and>
   transcodeRequests (trace (snd (splitAudioFile (demoEnv 0 noFault) demoWorld ''meeting.mp3'' ''bucket'' 0))) = []"
proof -
  have h: "(0::real) \<le> 0" by simp
  have nf: "(\<forall>n c. fault (demoEnv 0 noFault) n c = None) \<and> objects demoWorld (''bucket'', ''meeting.mp3'') \<noteq> None"
    by (simp add: demo_defs)
  from split_nonpositive_duration[OF h, of "demoEnv 0 noFault" demoWorld "''meeting.mp3''" "''bucket''"] nf
  show ?thesis by (simp add: demoWorld_def)
qed

text \<open>Claim C9 as stated fails: durations 0 and -5 give the empty plan, not an error.\<close>

theorem split_nonpositive_duration_counterexample:
  "fst (splitAudioFile (demoEnv 0 noFault) demoWorld ''meeting.mp3'' ''bucket'' 0) = Inr [] \<and>
   fst (splitAudioFile (demoEnv (- 5) noFault) demoWorld ''meeting.mp3'' ''bucket'' (- 5)) = Inr []"
  by (simp add: run_defs prim_defs demo_defs)

subsection \<open>The key of a published segment\<close>

lemma publishSegment_Inr:
  assumes "publishSegment env w bucket sourceKey seg = (Inr url, w')"
  shows "url = \<lparr>su_url = ''s3://'' @ bucket @ ''/'' @ segmentKey sourceKey (seg_index seg),
                su_key = segmentKey sourceKey (seg_index seg), su_index = seg_index seg,
                su_startTime = seg_startTime seg, su_duration = seg_duration seg\<rparr>"
    and "\<exists>data. files w (seg_path seg) = Some data \<and>
           objects w' = (objects w)((bucket, segmentKey sourceKey (seg_index seg)) \<mapsto> data)"
    and "files w' = files w"
    and "trace w' = trace w @ [FsReadFile (seg_path seg),
           S3PutObject bucket (segmentKey sourceKey (seg_index seg)) sourceKey (seg_index seg)
             (seg_startTime seg) (seg_duration seg)]"
  using assms unfolding publishSegment_def Let_def
  by (auto simp: prim_defs Let_def split: prod.splits sum.splits option.splits)



subsection \<open>The dispatcher\<close>

lemma triggerLoop_run:
  "trace (snd (triggerLoop env segs jobs w)) =
     trace w @ map (\<lambda>(n, seg). submission env n seg) (enumerate (length (trace w)) segs) \<and>
   fst (triggerLoop env segs jobs w) =
     jobs @ map (\<lambda>(n, seg). startedJob env n seg)
              (filter (\<lambda>(n, seg). fault env n (submission env n seg) = None)
                 (enumerate (length (trace w)) segs)) \<and>
   objects (snd (triggerLoop env segs jobs w)) = objects w \<and>
   files (snd (triggerLoop env segs jobs w)) = files w"
proof (induction segs arbitrary: jobs w)
  case Nil
  show ?case by simp
next
  case (Cons seg rest)
  let ?c = "submission env (length (trace w)) seg"
  let ?w1 = "record_call w ?c"
  have len: "length (trace ?w1) = Suc (length (trace w))"
    by (simp add: record_call_def)
  show ?case
  proof (cases "fault env (length (trace w)) ?c")
    case None
    then have step: "triggerLoop env (seg # rest) jobs w =
        triggerLoop env rest (jobs @ [startedJob env (length (trace w)) seg]) ?w1"
      by (simp add: startTranscriptionJob_def submission_def jobNameAt_def startedJob_def
            Date_now_def Let_def)
    from Cons.IH[of "jobs @ [startedJob env (length (trace w)) seg]" ?w1] None show ?thesis
      unfolding step len by (simp add: record_call_sel)
  next
    case (Some m)
    then have step: "triggerLoop env (seg # rest) jobs w = triggerLoop env rest jobs ?w1"
      by (simp add: startTranscriptionJob_def submission_def jobNameAt_def
            Date_now_def Let_def)
    from Cons.IH[of jobs ?w1] Some show ?thesis
      unfolding step len by (simp add: record_call_sel)
  qed
qed

text \<open>
  Claim C3, as amended. The dispatcher makes one submission for every segment it is given, in
  order, whether or not earlier ones failed, and it never fails itself. The list it returns
  has one entry, of status \<open>STARTED\<close>, for every segment whose submission succeeded, in order;
  a failed submission leaves no entry, so the list may be shorter than the input.
\<close>

theorem dispatch_records_started_jobs_only:
  "trace (snd (triggerTranscriptionJobs env w segs)) =
     trace w @ map (\<lambda>(n, seg). submission env n seg) (enumerate (length (trace w)) segs) \<and>
   fst (triggerTranscriptionJobs env w segs) =
     map (\<lambda>(n, seg). startedJob env n seg)
       (filter (\<lambda>(n, seg). fault env n (submission env n seg) = None)
          (enumerate (length (trace w)) segs)) \<and>
   length (filter is_submit (newCalls w (snd (triggerTranscriptionJobs env w segs)))) = length segs \<and>
   length (fst (triggerTranscriptionJobs env w segs)) \<le> length segs \<and>
   list_all (\<lambda>j. job_status j = ''STARTED'') (fst (triggerTranscriptionJobs env w segs))"
proof -
  let ?subs = "map (\<lambda>(n, seg). submission env n seg) (enumerate (length (trace w)) segs)"
  let ?ok = "filter (\<lambda>(n, seg). fault env n (submission env n seg) = None)
          (enumerate (length (trace w)) segs)"
  from triggerLoop_run[of env segs "[]" w]
  have tr: "trace (snd (triggerTranscriptionJobs env w segs)) = trace w @ ?subs"
    and js: "fst (triggerTranscriptionJobs env w segs) = map (\<lambda>(n, seg). startedJob env n seg) ?ok"
    by (simp_all add: triggerTranscriptionJobs_def)
  have "filter is_submit ?subs = ?subs"
    by (simp add: submission_def split_def)
  then have n: "length (filter is_submit (newCalls w (snd (triggerTranscriptionJobs env w segs)))) = length segs"
    by (simp add: newCalls_def tr)
  have "length ?ok \<le> length (enumerate (length (trace w)) segs)"
    by (rule length_filter_le)
  then have le: "length (fst (triggerTranscriptionJobs env w segs)) \<le> length segs"
    by (simp add: js)
  have st: "list_all (\<lambda>j. job_status j = ''STARTED'') (fst (triggerTranscriptionJobs env w segs))"
    by (simp add: js list_all_iff startedJob_def split_def)
  from tr js n le st show ?thesis by (intro conjI)
qed

text \<open>
  Claim C3 as stated fails: of three segments whose second submission fails, all three are
  submitted, and the list returned has two entries, both \<open>STARTED\<close>; the failed one is left
  out.
\<close>

theorem dispatch_omits_failed_submission_counterexample:
  "fst (triggerTranscriptionJobs (demoEnv 25200 (faultAtCall 1)) demoWorld [demoUrl 0, demoUrl 1, demoUrl 2]) =
     [\<lparr>job_jobName = ''boardbreeze-segment-0-7'', job_segmentIndex = 0, job_status = ''STARTED''\<rparr>,
      \<lparr>job_jobName = ''boardbreeze-segment-2-7'', job_segmentIndex = 2, job_status = ''STARTED''\<rparr>] \<and>
   length (fst (triggerTranscriptionJobs (demoEnv 25200 (faultAtCall 1)) demoWorld
                  [demoUrl 0, demoUrl 1, demoUrl 2])) = 2 \<and>
   length (filter is_submit
     (trace (snd (triggerTranscriptionJobs (demoEnv 25200 (faultAtCall 1)) demoWorld
                  [demoUrl 0, demoUrl 1, demoUrl 2])))) = 3"
  by (simp add: run_defs prim_defs demo_defs)

subsection \<open>Missing parameters\<close>

text \<open>
  Claim C10, as amended. Let the event lack a parameter. In every case the handler makes no
  external call: the world, with its trace and its object store, is unchanged. If the event
  is a value that \<open>JSON.stringify\<close> accepts, the handler returns status code 500 with
  status \<open>error\<close> and the message that names the missing parameters. If the event is \<open>null\<close>
  or \<open>undefined\<close>, it returns status code 500 with the message of the TypeError of the
  destructuring. If \<open>JSON.stringify\<close> refuses the event, the handler returns no response: it
  fails with that TypeError.
\<close>

theorem missing_parameters_rejected:
  assumes "lacksParameter ev"
  shows "snd (handler env w ev) = w \<and>
         trace (snd (handler env w ev)) = trace w \<and>
         objects (snd (handler env w ev)) = objects w \<and>
         (\<forall>k b. ev = ObjectEvent k b None \<longrightarrow>
            fst (handler env w ev) =
              Inr \<lparr>statusCode = 500,
                   body = ErrorBody ''Missing required parameters: s3Key and bucketName''\<rparr> \<and>
            status (body \<lparr>statusCode = 500,
                           body = ErrorBody ''Missing required parameters: s3Key and bucketName''\<rparr>) =
              ''error'') \<and>
         (ev = NullEvent \<longrightarrow>
            fst (handler env w ev) = Inr \<lparr>statusCode = 500, body = ErrorBody nullEventMessage\<rparr>) \<and>
         (ev = UndefinedEvent \<longrightarrow>
            fst (handler env w ev) = Inr \<lparr>statusCode = 500, body = ErrorBody undefinedEventMessage\<rparr>) \<and>
         (\<forall>k b m. ev = ObjectEvent k b (Some m) \<longrightarrow> fst (handler env w ev) = Inl (Error m))"
  using assms
  by (cases ev) (auto simp: handler_def handlerTry_def split: option.splits)

text \<open>An event without \<open>s3Key\<close>, and one with an empty \<open>bucketName\<close>.\<close>

theorem missing_parameters_rejected_witness:
  "lacksParameter (ObjectEvent None (Some ''bucket'') None) \<and>
   lacksParameter (ObjectEvent (Some ''meeting.mp3'') (Some '''') None) \<and>
   fst (handler (demoEnv 25200 noFault) demoWorld (ObjectEvent None (Some ''bucket'') None)) =
     Inr \<lparr>statusCode = 500, body = ErrorBody ''Missing required parameters: s3Key and bucketName''\<rparr> \<and>
   fst (handler (demoEnv 25200 noFault) demoWorld (ObjectEvent (Some ''meeting.mp3'') (Some '''') None)) =
     Inr \<lparr>statusCode = 500, body = ErrorBody ''Missing required parameters: s3Key and bucketName''\<rparr> \<and>
   snd (handler (demoEnv 25200 noFault) demoWorld (ObjectEvent None (Some ''bucket'') None)) = demoWorld"
proof -
  have h1: "lacksParameter (ObjectEvent None (Some ''bucket'') None)" by simp
  have h2: "lacksParameter (ObjectEvent (Some ''meeting.mp3'') (Some '''') None)" by simp
  from missing_parameters_rejected[OF h1, of "demoEnv 25200 noFault" demoWorld]
       missing_parameters_rejected[OF h2, of "demoEnv 25200 noFault" demoWorld] h1 h2
  show ?thesis by simp
qed

text \<open>
  Claim C10 as stated fails: a \<open>null\<close> event has neither parameter and the message returned
  is not the one that names the missing parameters; an event that has no \<open>s3Key\<close> and that
  \<open>JSON.stringify\<close> refuses gets no structured result at all.
\<close>

theorem missing_parameters_counterexample:
  "lacksParameter NullEvent \<and>
   fst (handler (demoEnv 25200 noFault) demoWorld NullEvent) =
     Inr \<lparr>statusCode = 500, body = ErrorBody nullEventMessage\<rparr> \<and>
   nullEventMessage \<noteq> ''Missing required parameters: s3Key and bucketName'' \<and>
   lacksParameter (ObjectEvent None (Some ''bucket'') (Some ''Converting circular structure to JSON'')) \<and>
   fst (handler (demoEnv 25200 noFault) demoWorld
          (ObjectEvent None (Some ''bucket'') (Some ''Converting circular structure to JSON''))) =
     Inl (Error ''Converting circular structure to JSON'')"
  by (simp add: handler_def handlerTry_def nullEventMessage_def)

subsection \<open>The result of the handler\<close>

lemma filter_submit_transcode: "list_all is_transcode cs \<Longrightarrow> filter is_submit cs = []"
  by (induction cs rule: transcodeRequests.induct) simp_all

lemma no_submit_analyze:
  "analyzeAudioFile env w key bucket = (r, w') \<Longrightarrow>
     filter is_submit (trace w') = filter is_submit (trace w)"
  unfolding analyzeAudioFile_def Let_def
  by (auto simp: prim_defs Let_def split: prod.splits sum.splits option.splits)

lemma no_submit_split:
  assumes "splitAudioFileWith L env w key bucket T = (r, w')"
  shows "filter is_submit (trace w') = filter is_submit (trace w)"
proof -
  have loop: "filter is_submit (trace w3) = filter is_submit (trace w2)"
    if "splitLoop env L T n p 0 [] w2 = (r', w3)" for n p w2 r' w3
    using splitLoop_frame[OF that] by (auto simp: filter_submit_transcode)
  from assms show ?thesis
    unfolding splitAudioFileWith_def Let_def
    by (auto split: prod.splits sum.splits
        dest!: loop s3_getObject_effect fs_writeFile_effect fs_unlink_effect
        simp: record_call_sel)
qed

lemma no_submit_splitNum:
  assumes "splitAudioFileNum env w key bucket d = (r, w')"
  shows "filter is_submit (trace w') = filter is_submit (trace w)"
proof (cases d)
  case (Num t)
  with assms show ?thesis
    by (simp add: splitAudioFileNum_def splitAudioFile_def no_submit_split)
next
  case NaN
  with assms show ?thesis
    unfolding splitAudioFileNum_def Let_def
    by (auto split: prod.splits sum.splits
        dest!: s3_getObject_effect fs_writeFile_effect fs_unlink_effect
        simp: record_call_sel)
qed

lemma no_submit_publish:
  "publishSegment env w bucket key seg = (r, w') \<Longrightarrow>
     filter is_submit (trace w') = filter is_submit (trace w)"
  unfolding publishSegment_def Let_def
  by (auto simp: prim_defs Let_def split: prod.splits sum.splits option.splits)

lemma no_submit_upload:
  "uploadLoop env bucket key segs acc w = (r, w') \<Longrightarrow>
     filter is_submit (trace w') = filter is_submit (trace w)"
  by (induction segs arbitrary: acc w)
     (auto split: prod.splits sum.splits dest!: no_submit_publish)

lemma no_submit_cleanup:
  "filter is_submit (trace (cleanupTempFiles env w segs)) = filter is_submit (trace w)"
proof (induction segs arbitrary: w)
  case Nil
  show ?case by simp
next
  case (Cons seg rest)
  obtain r w1 where u: "fs_unlink env w (seg_path seg) = (r, w1)"
    by (cases "fs_unlink env w (seg_path seg)")
  from fs_unlink_effect[OF u] Cons.IH[of w1] u show ?case by simp
qed

lemma no_submit_handlerTry:
  "handlerTry env w ev = (r, w') \<Longrightarrow> filter is_submit (trace w') = filter is_submit (trace w)"
  unfolding handlerTry_def splitAndPublish_def uploadSegments_def
  by (auto split: prod.splits sum.splits option.splits if_splits event.splits
      dest!: no_submit_analyze no_submit_splitNum no_submit_upload simp: no_submit_cleanup)

lemma no_submit_handler:
  "filter is_submit (trace (snd (handler env w ev))) = filter is_submit (trace w)"
proof -
  obtain r w' where t: "handlerTry env w ev = (r, w')"
    by (cases "handlerTry env w ev")
  from no_submit_handlerTry[OF t] t show ?thesis
    by (simp add: handler_def split: sum.splits option.splits)
qed

lemma uploadLoop_urls:
  "uploadLoop env bucket key segs acc w = (Inr urls, w') \<Longrightarrow>
     map su_key urls = map su_key acc @ map (\<lambda>s. segmentKey key (seg_index s)) segs \<and>
     map su_index urls = map su_index acc @ map seg_index segs"
proof (induction segs arbitrary: acc w)
  case Nil
  then show ?case by simp
next
  case (Cons s rest)
  obtain r1 w1 where p: "publishSegment env w bucket key s = (r1, w1)"
    by (cases "publishSegment env w bucket key s")
  from Cons.prems p obtain url where r1: "r1 = Inr url"
    and rest: "uploadLoop env bucket key rest (acc @ [url]) w1 = (Inr urls, w')"
    by (cases r1) simp_all
  from publishSegment_Inr(1)[OF p[unfolded r1]] Cons.IH[OF rest] show ?case by simp
qed

lemma handler_shapes:
  assumes "stringifyError ev = None"
  shows "\<exists>r. fst (handler env w ev) = Inr r \<and>
           ((statusCode r = 200 \<and> (\<exists>d msg. body r = NoSplitNeeded d msg)) \<or>
            (statusCode r = 200 \<and> (\<exists>k urls d. body r = SplitComplete k (length urls) urls d)) \<or>
            (statusCode r = 500 \<and> (\<exists>msg. body r = ErrorBody msg)))"
  using assms unfolding handler_def handlerTry_def splitAndPublish_def
  by (auto split: prod.splits sum.splits option.splits if_splits event.splits)

lemma handler_stages:
  assumes "key \<noteq> []" and "bucket \<noteq> []"
  shows "handler env w (ObjectEvent (Some key) (Some bucket) None) =
    (case analyzeAudioFile env w key bucket of
       (Inl e, w1) \<Rightarrow> (Inr \<lparr>statusCode = 500, body = ErrorBody (message e)\<rparr>, w1)
     | (Inr info, w1) \<Rightarrow>
         if js_le (info_duration info) 14400
         then (Inr \<lparr>statusCode = 200,
                    body = NoSplitNeeded (info_duration info) ''File is within AWS Transcribe limits''\<rparr>, w1)
         else
           (case splitAudioFileNum env w1 key bucket (info_duration info) of
              (Inl e, w2) \<Rightarrow> (Inr \<lparr>statusCode = 500, body = ErrorBody (message e)\<rparr>, w2)
            | (Inr segs, w2) \<Rightarrow>
                (case uploadSegments env w2 segs bucket key of
                   (Inl e, w3) \<Rightarrow> (Inr \<lparr>statusCode = 500, body = ErrorBody (message e)\<rparr>, w3)
                 | (Inr urls, w3) \<Rightarrow>
                     (Inr \<lparr>statusCode = 200,
                           body = SplitComplete key (length urls) urls (info_duration info)\<rparr>,
                      cleanupTempFiles env w3 segs))))"
  using assms
  by (simp add: handler_def handlerTry_def splitAndPublish_def fourHoursInSeconds_def
           split: prod.splits sum.splits)

text \<open>
  Claim C6, as amended. If \<open>JSON.stringify\<close> refuses the event, the handler fails with that
  TypeError at its first statement, before the \<open>try\<close> block, and makes no call. For every
  other event the handler returns a response, of one of three shapes, and no error leaves it:
  whatever the \<open>try\<close> block throws comes back as status code 500 with status \<open>error\<close> and
  the message of that error. For an event with both parameters: an error of the analysis, of
  the split or of the upload comes back with its message; a probed duration of at most 14400
  comes back as status code 200 with \<open>no-split-needed\<close> and that duration; otherwise, when
  the split and the upload succeed, the result is status code 200 with \<open>split-complete\<close>,
  the source key, the descriptors that the upload returned (one per segment, in order, each
  under the key of its segment), their number and the probed duration. The handler submits no
  transcription job, so the split-complete result carries no dispatch status.
\<close>

theorem handler_result_shapes:
  "(stringifyError ev = Some m \<longrightarrow> handler env w ev = (Inl (Error m), w)) \<and>
   (stringifyError ev = None \<longrightarrow>
      (\<exists>r. fst (handler env w ev) = Inr r \<and>
           ((statusCode r = 200 \<and> (\<exists>d msg. body r = NoSplitNeeded d msg)) \<or>
            (statusCode r = 200 \<and> (\<exists>k urls d. body r = SplitComplete k (length urls) urls d)) \<or>
            (statusCode r = 500 \<and> (\<exists>msg. body r = ErrorBody msg))))) \<and>
   (stringifyError ev = None \<and> fst (handlerTry env w ev) = Inl e \<longrightarrow>
      fst (handler env w ev) = Inr \<lparr>statusCode = 500, body = ErrorBody (message e)\<rparr>) \<and>
   (ev = ObjectEvent (Some key) (Some bucket) None \<and> key \<noteq> [] \<and> bucket \<noteq> [] \<longrightarrow>
      (fst (analyzeAudioFile env w key bucket) = Inl e \<longrightarrow>
         fst (handler env w ev) = Inr \<lparr>statusCode = 500, body = ErrorBody (message e)\<rparr>) \<and>
      (fst (analyzeAudioFile env w key bucket) = Inr info \<and> js_le (info_duration info) 14400 \<longrightarrow>
         fst (handler env w ev) =
           Inr \<lparr>statusCode = 200,
                body = NoSplitNeeded (info_duration info) ''File is within AWS Transcribe limits''\<rparr>) \<and>
      (fst (analyzeAudioFile env w key bucket) = Inr info \<and> \<not> js_le (info_duration info) 14400 \<longrightarrow>
         (fst (splitAudioFileNum env (snd (analyzeAudioFile env w key bucket)) key bucket
                 (info_duration info)) = Inl e \<longrightarrow>
            fst (handler env w ev) = Inr \<lparr>statusCode = 500, body = ErrorBody (message e)\<rparr>) \<and>
         (fst (splitAudioFileNum env (snd (analyzeAudioFile env w key bucket)) key bucket
                 (info_duration info)) = Inr segs \<longrightarrow>
            (fst (uploadSegments env
                    (snd (splitAudioFileNum env (snd (analyzeAudioFile env w key bucket)) key bucket
                            (info_duration info))) segs bucket key) = Inl e \<longrightarrow>
               fst (handler env w ev) = Inr \<lparr>statusCode = 500, body = ErrorBody (message e)\<rparr>) \<and>
            (fst (uploadSegments env
                    (snd (splitAudioFileNum env (snd (analyzeAudioFile env w key bucket)) key bucket
                            (info_duration info))) segs bucket key) = Inr urls \<longrightarrow>
               fst (handler env w ev) =
                 Inr \<lparr>statusCode = 200,
                      body = SplitComplete key (length urls) urls (info_duration info)\<rparr> \<and>
               map su_key urls = map (\<lambda>s. segmentKey key (seg_index s)) segs \<and>
               map su_index urls = map seg_index segs)))) \<and>
   filter is_submit (trace (snd (handler env w ev))) = filter is_submit (trace w)"
proof -
  have raw: "stringifyError ev = Some m \<longrightarrow> handler env w ev = (Inl (Error m), w)"
    by (simp add: handler_def)
  have caught: "stringifyError ev = None \<and> fst (handlerTry env w ev) = Inl e \<longrightarrow>
      fst (handler env w ev) = Inr \<lparr>statusCode = 500, body = ErrorBody (message e)\<rparr>"
    by (cases "handlerTry env w ev") (auto simp: handler_def)
  have urls: "map su_key urls = map (\<lambda>s. segmentKey key (seg_index s)) segs \<and>
              map su_index urls = map seg_index segs"
    if "fst (uploadSegments env w2 segs bucket key) = Inr urls" for w2
    using uploadLoop_urls[OF fst_snd_pair[OF that[unfolded uploadSegments_def]]] by simp
  have stages: "ev = ObjectEvent (Some key) (Some bucket) None \<and> key \<noteq> [] \<and> bucket \<noteq> [] \<longrightarrow>
      (fst (analyzeAudioFile env w key bucket) = Inl e \<longrightarrow>
         fst (handler env w ev) = Inr \<lparr>statusCode = 500, body = ErrorBody (message e)\<rparr>) \<and>
      (fst (analyzeAudioFile env w key bucket) = Inr info \<and> js_le (info_duration info) 14400 \<longrightarrow>
         fst (handler env w ev) =
           Inr \<lparr>statusCode = 200,
                body = NoSplitNeeded (info_duration info) ''File is within AWS Transcribe limits''\<rparr>) \<and>
      (fst (analyzeAudioFile env w key bucket) = Inr info \<and> \<not> js_le (info_duration info) 14400 \<longrightarrow>
         (fst (splitAudioFileNum env (snd (analyzeAudioFile env w key bucket)) key bucket
                 (info_duration info)) = Inl e \<longrightarrow>
            fst (handler env w ev) = Inr \<lparr>statusCode = 500, body = ErrorBody (message e)\<rparr>) \<and>
         (fst (splitAudioFileNum env (snd (analyzeAudioFile env w key bucket)) key bucket
                 (info_duration info)) = Inr segs \<longrightarrow>
            (fst (uploadSegments env
                    (snd (splitAudioFileNum env (snd (analyzeAudioFile env w key bucket)) key bucket
                            (info_duration info))) segs bucket key) = Inl e \<longrightarrow>
               fst (handler env w ev) = Inr \<lparr>statusCode = 500, body = ErrorBody (message e)\<rparr>) \<and>
            (fst (uploadSegments env
                    (snd (splitAudioFileNum env (snd (analyzeAudioFile env w key bucket)) key bucket
                            (info_duration info))) segs bucket key) = Inr urls \<longrightarrow>
               fst (handler env w ev) =
                 Inr \<lparr>statusCode = 200,
                      body = SplitComplete key (length urls) urls (info_duration info)\<rparr> \<and>
               map su_key urls = map (\<lambda>s. segmentKey key (seg_index s)) segs \<and>
               map su_index urls = map seg_index segs)))"
    using urls handler_stages[of key bucket env w]
    by (auto split: prod.splits sum.splits)
  from raw handler_shapes[of ev env w] caught stages no_submit_handler[of env w ev]
  show ?thesis by (intro conjI impI) blast+
qed


text \<open>Seven hours are split in two, four hours are not split, and an ffprobe failure is reported.\<close>

theorem handler_result_shapes_witness:
  "stringifyError demoEvent = None \<and>
   fst (handler (demoEnv 25200 noFault) demoWorld demoEvent) =
     Inr \<lparr>statusCode = 200,
          body = SplitComplete ''meeting.mp3'' 2 [demoUrl 0, demoUrl 1] (Num 25200)\<rparr> \<and>
   fst (handler (demoEnv 14400 noFault) demoWorld demoEvent) =
     Inr \<lparr>statusCode = 200,
          body = NoSplitNeeded (Num 14400) ''File is within AWS Transcribe limits''\<rparr> \<and>
   fst (handler (demoEnv 25200 probeFault) demoWorld demoEvent) =
     Inr \<lparr>statusCode = 500, body = ErrorBody ''Invalid data found when processing input''\<rparr>"
proof -
  let ?k = "''meeting.mp3''" and ?b = "''bucket''"
  let ?E = "demoEnv 25200 noFault" and ?E2 = "demoEnv 14400 noFault" and ?E3 = "demoEnv 25200 probeFault"
  let ?info = "\<lparr>info_duration = Num 25200, info_size = 3, info_format = ''mp3''\<rparr>"
  let ?info2 = "\<lparr>info_duration = Num 14400, info_size = 3, info_format = ''mp3''\<rparr>"
  let ?segs = "[demoSegment 0 12600, demoSegment 1 12600]"
  let ?e = "Error ''Invalid data found when processing input''"
  have ev: "demoEvent = ObjectEvent (Some ?k) (Some ?b) None \<and> ?k \<noteq> [] \<and> ?b \<noteq> []"
    by (simp add: demoEvent_def)
  have log: "stringifyError demoEvent = None"
    by (simp add: demoEvent_def)
  have hA: "fst (analyzeAudioFile ?E demoWorld ?k ?b) = Inr ?info \<and> \<not> js_le (info_duration ?info) 14400"
    by (simp add: run_defs prim_defs demo_defs)
  have hS: "fst (splitAudioFileNum ?E (snd (analyzeAudioFile ?E demoWorld ?k ?b)) ?k ?b
                  (info_duration ?info)) = Inr ?segs"
    by (simp add: run_defs prim_defs demo_defs)
  have hU: "fst (uploadSegments ?E
                   (snd (splitAudioFileNum ?E (snd (analyzeAudioFile ?E demoWorld ?k ?b)) ?k ?b
                           (info_duration ?info))) ?segs ?b ?k) = Inr [demoUrl 0, demoUrl 1]"
    by (simp add: run_defs prim_defs demo_defs)
  have hA2: "fst (analyzeAudioFile ?E2 demoWorld ?k ?b) = Inr ?info2 \<and> js_le (info_duration ?info2) 14400"
    by (simp add: run_defs prim_defs demo_defs)
  have hA3: "fst (analyzeAudioFile ?E3 demoWorld ?k ?b) = Inl ?e"
    by (simp add: run_defs prim_defs demo_defs)
  from handler_result_shapes[where ev = demoEvent and key = ?k and bucket = ?b and w = demoWorld
      and env = ?E and info = ?info and segs = ?segs and urls = "[demoUrl 0, demoUrl 1]",
      THEN conjunct2, THEN conjunct2, THEN conjunct2, THEN conjunct1, THEN mp, OF ev,
      THEN conjunct2, THEN conjunct2, THEN mp, OF hA, THEN conjunct2, THEN mp, OF hS,
      THEN conjunct2, THEN mp, OF hU, THEN conjunct1]
  have a: "fst (handler ?E demoWorld demoEvent) =
     Inr \<lparr>statusCode = 200,
          body = SplitComplete ''meeting.mp3'' 2 [demoUrl 0, demoUrl 1] (Num 25200)\<rparr>"
    by simp
  from handler_result_shapes[where ev = demoEvent and key = ?k and bucket = ?b and w = demoWorld
      and env = ?E2 and info = ?info2,
      THEN conjunct2, THEN conjunct2, THEN conjunct2, THEN conjunct1, THEN mp, OF ev,
      THEN conjunct2, THEN conjunct1, THEN mp, OF hA2]
  have b: "fst (handler ?E2 demoWorld demoEvent) =
     Inr \<lparr>statusCode = 200,
          body = NoSplitNeeded (Num 14400) ''File is within AWS Transcribe limits''\<rparr>"
    by simp
  from handler_result_shapes[where ev = demoEvent and key = ?k and bucket = ?b and w = demoWorld
      and env = ?E3 and e = ?e,
      THEN conjunct2, THEN conjunct2, THEN conjunct2, THEN conjunct1, THEN mp, OF ev,
      THEN conjunct1, THEN mp, OF hA3]
  have c: "fst (handler ?E3 demoWorld demoEvent) =
     Inr \<lparr>statusCode = 500, body = ErrorBody ''Invalid data found when processing input''\<rparr>"
    by simp
  from log a b c show ?thesis by (intro conjI)
qed

text \<open>
  Claim C6 as stated fails twice: a recording of seven hours ends in split-complete with its
  two published segments and no submission was made, so there is no dispatch status to carry;
  and an event that \<open>JSON.stringify\<close> refuses makes the handler fail with that error.
\<close>

theorem split_complete_without_dispatch_counterexample:
  "fst (handler (demoEnv 25200 noFault) demoWorld demoEvent) =
     Inr \<lparr>statusCode = 200,
          body = SplitComplete ''meeting.mp3'' 2 [demoUrl 0, demoUrl 1] (Num 25200)\<rparr> \<and>
   filter is_submit (trace (snd (handler (demoEnv 25200 noFault) demoWorld demoEvent))) = [] \<and>
   handler (demoEnv 25200 noFault) demoWorld
     (ObjectEvent (Some ''meeting.mp3'') (Some ''bucket'') (Some ''Converting circular structure to JSON'')) =
     (Inl (Error ''Converting circular structure to JSON''), demoWorld)"
  by (simp add: run_defs prim_defs demo_defs)

subsection \<open>The gate on the duration\<close>

lemma analyzeAudioFile_Inr:
  assumes "analyzeAudioFile env w key bucket = (Inr info, w')"
  shows "objects w' = objects w"
    and "newCalls w w' =
          [S3GetObject bucket key,
           FsWriteFile (''/tmp/input_'' @ string_of_nat (Date_now env w) @ ''.mp3''),
           Ffprobe (''/tmp/input_'' @ string_of_nat (Date_now env w) @ ''.mp3''),
           FsUnlink (''/tmp/input_'' @ string_of_nat (Date_now env w) @ ''.mp3'')]"
  using assms unfolding analyzeAudioFile_def newCalls_def
  by (auto simp: prim_defs Let_def split: prod.splits sum.splits option.splits)

text \<open>
  When the probed duration is a number \<open>d\<close>: if \<open>d\<close> is at most 14400, the ceiling
  included, the handler returns the no-split-needed result with that duration, the only calls
  made are the four of the analysis (get, write, ffprobe, unlink) and the object store is
  unchanged; if \<open>d\<close> is above 14400 the handler goes on to split and publish; a run that
  transcodes or puts has \<open>d\<close> above 14400.
\<close>

lemma gate_on_numeric_duration:
  assumes "key \<noteq> []" and "bucket \<noteq> []"
    and "fst (analyzeAudioFile env w key bucket) = Inr info"
    and "info_duration info = Num d"
  shows "(d \<le> 14400 \<longrightarrow>
            handler env w (ObjectEvent (Some key) (Some bucket) None) =
              (Inr \<lparr>statusCode = 200,
                    body = NoSplitNeeded (Num d) ''File is within AWS Transcribe limits''\<rparr>,
               snd (analyzeAudioFile env w key bucket)) \<and>
            objects (snd (handler env w (ObjectEvent (Some key) (Some bucket) None))) = objects w \<and>
            newCalls w (snd (handler env w (ObjectEvent (Some key) (Some bucket) None))) =
              [S3GetObject bucket key,
               FsWriteFile (''/tmp/input_'' @ string_of_nat (Date_now env w) @ ''.mp3''),
               Ffprobe (''/tmp/input_'' @ string_of_nat (Date_now env w) @ ''.mp3''),
               FsUnlink (''/tmp/input_'' @ string_of_nat (Date_now env w) @ ''.mp3'')]) \<and>
         (14400 < d \<longrightarrow>
            handlerTry env w (ObjectEvent (Some key) (Some bucket) None) =
              splitAndPublish env (snd (analyzeAudioFile env w key bucket)) key bucket info) \<and>
         (list_ex is_transcode (newCalls w (snd (handler env w (ObjectEvent (Some key) (Some bucket) None)))) \<or>
          list_ex is_put (newCalls w (snd (handler env w (ObjectEvent (Some key) (Some bucket) None))))
            \<longrightarrow> 14400 < d)"
proof -
  let ?ev = "ObjectEvent (Some key) (Some bucket) None"
  note run = fst_snd_pair[OF assms(3)]
  have low: "handler env w ?ev =
              (Inr \<lparr>statusCode = 200,
                    body = NoSplitNeeded (Num d) ''File is within AWS Transcribe limits''\<rparr>,
               snd (analyzeAudioFile env w key bucket))"
    if "d \<le> 14400"
    using that assms(4) by (subst handler_stages[OF assms(1,2)], subst run) (simp add: js_le_def)
  have high: "handlerTry env w ?ev =
              splitAndPublish env (snd (analyzeAudioFile env w key bucket)) key bucket info"
    if "14400 < d"
    using that assms(1,2,4)
    by (subst handlerTry_def, simp, subst run) (simp add: js_le_def fourHoursInSeconds_def)
  have calls: "newCalls w (snd (handler env w ?ev)) =
              [S3GetObject bucket key,
               FsWriteFile (''/tmp/input_'' @ string_of_nat (Date_now env w) @ ''.mp3''),
               Ffprobe (''/tmp/input_'' @ string_of_nat (Date_now env w) @ ''.mp3''),
               FsUnlink (''/tmp/input_'' @ string_of_nat (Date_now env w) @ ''.mp3'')]"
    if "d \<le> 14400"
    using low[OF that] analyzeAudioFile_Inr(2)[OF run] by simp
  have objs: "objects (snd (handler env w ?ev)) = objects w"
    if "d \<le> 14400"
    using low[OF that] analyzeAudioFile_Inr(1)[OF run] by simp
  have only: "14400 < d"
    if "list_ex is_transcode (newCalls w (snd (handler env w ?ev))) \<or>
        list_ex is_put (newCalls w (snd (handler env w ?ev)))"
  proof (rule ccontr)
    assume "\<not> 14400 < d"
    then have "d \<le> 14400" by simp
    from calls[OF this] that show False by simp
  qed
  from low high calls objs only show ?thesis by blast
qed

text \<open>
  Claim C2 does not hold of the code. When ffprobe reports no duration, \<open>parseFloat\<close> gives
  NaN. \<open>NaN <= 14400\<close> is false, so the handler does not answer no-split-needed: it takes the
  split path, downloads the object a second time, makes no segment and answers split-complete
  with 0 segments, although \<open>NaN > 14400\<close> is false as well.
\<close>

theorem nan_duration_takes_split_path:
  "fst (analyzeAudioFile nanEnv demoWorld ''meeting.mp3'' ''bucket'') =
     Inr \<lparr>info_duration = NaN, info_size = 3, info_format = ''mp3''\<rparr> \<and>
   \<not> js_le NaN 14400 \<and> \<not> js_gt NaN 14400 \<and>
   fst (handler nanEnv demoWorld demoEvent) =
     Inr \<lparr>statusCode = 200, body = SplitComplete ''meeting.mp3'' 0 [] NaN\<rparr> \<and>
   newCalls demoWorld (snd (handler nanEnv demoWorld demoEvent)) =
     [S3GetObject ''bucket'' ''meeting.mp3'', FsWriteFile ''/tmp/input_7.mp3'',
      Ffprobe ''/tmp/input_7.mp3'', FsUnlink ''/tmp/input_7.mp3'',
      S3GetObject ''bucket'' ''meeting.mp3'', FsWriteFile ''/tmp/input_7.mp3'',
      FsUnlink ''/tmp/input_7.mp3'']"
  by (simp add: run_defs prim_defs demo_defs)

text \<open>On NaN the split does what it does on a duration of zero: the loop is skipped.\<close>

lemma splitAudioFileNum_NaN:
  "splitAudioFileNum env w key bucket NaN = splitAudioFile env w key bucket 0"
  by (auto simp: splitAudioFileNum_def splitAudioFile_def splitAudioFileWith_def splitLoop_stop
        segmentDuration_def Let_def split: prod.splits sum.splits)

subsection \<open>A publish that fails\<close>

lemma publishSegment_effect:
  assumes "publishSegment env w bucket key seg = (r, w')"
  shows "files w' = files w"
    and "objects w k \<noteq> None \<Longrightarrow> objects w' k \<noteq> None"
    and "isl r \<Longrightarrow> objects w' = objects w"
    and "\<not> isl r \<Longrightarrow> objects w' (bucket, segmentKey key (seg_index seg)) \<noteq> None"
  using assms unfolding publishSegment_def Let_def
  by (auto simp: prim_defs Let_def split: prod.splits sum.splits option.splits)

lemma uploadLoop_keeps:
  "uploadLoop env bucket key segs acc w = (r, w') \<Longrightarrow> objects w k \<noteq> None \<Longrightarrow> objects w' k \<noteq> None"
proof (induction segs arbitrary: acc w)
  case Nil
  then show ?case by simp
next
  case (Cons seg rest)
  obtain r1 w1 where p: "publishSegment env w bucket key seg = (r1, w1)"
    by (cases "publishSegment env w bucket key seg")
  from publishSegment_effect(2)[OF p Cons.prems(2)] have k1: "objects w1 k \<noteq> None" .
  show ?case
  proof (cases r1)
    case (Inl e)
    with Cons.prems(1) p k1 show ?thesis by simp
  next
    case (Inr url)
    with Cons.prems(1) p have "uploadLoop env bucket key rest (acc @ [url]) w1 = (r, w')" by simp
    from Cons.IH[OF this k1] show ?thesis .
  qed
qed

lemma uploadLoop_published:
  "uploadLoop env bucket key segs acc w = (Inr urls, w') \<Longrightarrow> seg \<in> set segs \<Longrightarrow>
     objects w' (bucket, segmentKey key (seg_index seg)) \<noteq> None"
proof (induction segs arbitrary: acc w)
  case Nil
  then show ?case by simp
next
  case (Cons s rest)
  obtain r1 w1 where p: "publishSegment env w bucket key s = (r1, w1)"
    by (cases "publishSegment env w bucket key s")
  from Cons.prems(1) p obtain url where r1: "r1 = Inr url"
    and rest: "uploadLoop env bucket key rest (acc @ [url]) w1 = (Inr urls, w')"
    by (cases r1) simp_all
  show ?case
  proof (cases "seg = s")
    case True
    from publishSegment_effect(4)[OF p] r1
    have "objects w1 (bucket, segmentKey key (seg_index s)) \<noteq> None" by simp
    from uploadLoop_keeps[OF rest this] True show ?thesis by simp
  next
    case False
    with Cons.prems(2) have "seg \<in> set rest" by simp
    from Cons.IH[OF rest this] show ?thesis .
  qed
qed

lemma uploadLoop_fails_at:
  "uploadLoop env bucket key xs acc w = (Inr urls, w3) \<Longrightarrow>
   publishSegment env w3 bucket key s = (Inl e, w4) \<Longrightarrow>
   uploadLoop env bucket key (xs @ s # ys) acc w = (Inl e, w4)"
proof (induction xs arbitrary: acc w)
  case Nil
  then show ?case by simp
next
  case (Cons x xs)
  obtain r1 w1 where p: "publishSegment env w bucket key x = (r1, w1)"
    by (cases "publishSegment env w bucket key x")
  from Cons.prems(1) p obtain url where r1: "r1 = Inr url"
    and rest: "uploadLoop env bucket key xs (acc @ [url]) w1 = (Inr urls, w3)"
    by (cases r1) simp_all
  from Cons.IH[OF rest Cons.prems(2)] p r1 show ?case by simp
qed

text \<open>
  Claim C4. Let the analysis report more than 14400 seconds and the split return the segments
  \<open>segs\<close>. If the first \<open>k\<close> segments are published and publishing segment \<open>k\<close> fails
  with the error \<open>e\<close>, the handler returns status code 500 with the message of \<open>e\<close>, which
  is the only failure shape; the objects of the segments before \<open>k\<close> are in the store of the
  final world, and the failed publish has changed no object.
\<close>

theorem publish_failure_is_fatal:
  assumes "key \<noteq> []" and "bucket \<noteq> []"
    and "analyzeAudioFile env w key bucket = (Inr info, w1)"
    and "js_gt (info_duration info) 14400"
    and "splitAudioFileNum env w1 key bucket (info_duration info) = (Inr segs, w2)"
    and "k < length segs"
    and "uploadSegments env w2 (take k segs) bucket key = (Inr urls, w3)"
    and "publishSegment env w3 bucket key (segs ! k) = (Inl e, w4)"
  shows "handler env w (ObjectEvent (Some key) (Some bucket) None) =
           (Inr \<lparr>statusCode = 500, body = ErrorBody (message e)\<rparr>, w4) \<and>
         (\<forall>i<k. objects w4 (bucket, segmentKey key (seg_index (segs ! i))) \<noteq> None) \<and>
         objects w4 = objects w3"
proof (intro conjI allI impI)
  from assms(6) have segs: "segs = take k segs @ segs ! k # drop (Suc k) segs"
    by (rule id_take_nth_drop)
  from uploadLoop_fails_at[OF assms(7)[unfolded uploadSegments_def] assms(8), of "drop (Suc k) segs"]
  have up: "uploadSegments env w2 segs bucket key = (Inl e, w4)"
    unfolding uploadSegments_def using segs by simp
  from assms(4) have "\<not> js_le (info_duration info) 14400"
    by (cases "info_duration info") (simp_all add: js_gt_def js_le_def)
  with assms(3,5) up
  show "handler env w (ObjectEvent (Some key) (Some bucket) None) =
           (Inr \<lparr>statusCode = 500, body = ErrorBody (message e)\<rparr>, w4)"
    by (simp add: handler_stages[OF assms(1,2)])
  from publishSegment_effect(3)[OF assms(8)] show same: "objects w4 = objects w3" by simp
  fix i assume i: "i < k"
  with assms(6) have "i < length (take k segs)" by simp
  then have "take k segs ! i \<in> set (take k segs)" by (rule nth_mem)
  with i have "segs ! i \<in> set (take k segs)" by simp
  from uploadLoop_published[OF assms(7)[unfolded uploadSegments_def] this] same
  show "objects w4 (bucket, segmentKey key (seg_index (segs ! i))) \<noteq> None" by simp
qed

text \<open>Seven hours, two segments, the put of segment 1 is refused.\<close>

theorem publish_failure_is_fatal_witness:
  "''meeting.mp3'' \<noteq> [] \<and> ''bucket'' \<noteq> [] \<and> js_gt (Num 25200) 14400 \<and> (1::nat) < 2 \<and>
   fst (handler (demoEnv 25200 (putFaultAt 1)) demoWorld demoEvent) =
     Inr \<lparr>statusCode = 500, body = ErrorBody ''AccessDenied''\<rparr> \<and>
   objects (snd (handler (demoEnv 25200 (putFaultAt 1)) demoWorld demoEvent))
     (''bucket'', ''meeting_segment_0.mp3'') \<noteq> None"
proof -
  let ?E = "demoEnv 25200 (putFaultAt 1)"
  let ?info = "\<lparr>info_duration = Num 25200, info_size = 3, info_format = ''mp3''\<rparr>"
  let ?segs = "[demoSegment 0 12600, demoSegment 1 12600]"
  let ?w1 = "snd (analyzeAudioFile ?E demoWorld ''meeting.mp3'' ''bucket'')"
  let ?w2 = "snd (splitAudioFileNum ?E ?w1 ''meeting.mp3'' ''bucket'' (info_duration ?info))"
  let ?w3 = "snd (uploadSegments ?E ?w2 (take 1 ?segs) ''bucket'' ''meeting.mp3'')"
  let ?w4 = "snd (publishSegment ?E ?w3 ''bucket'' ''meeting.mp3'' (?segs ! 1))"
  have h1: "''meeting.mp3'' \<noteq> []" by simp
  have h2: "''bucket'' \<noteq> []" by simp
  have h3: "fst (analyzeAudioFile ?E demoWorld ''meeting.mp3'' ''bucket'') = Inr ?info"
    by (simp add: run_defs prim_defs demo_defs)
  have h4: "js_gt (info_duration ?info) 14400" by (simp add: js_gt_def)
  have h5: "fst (splitAudioFileNum ?E ?w1 ''meeting.mp3'' ''bucket'' (info_duration ?info)) = Inr ?segs"
    by (simp add: run_defs prim_defs demo_defs)
  have h6: "1 < length ?segs" by simp
  have h7: "fst (uploadSegments ?E ?w2 (take 1 ?segs) ''bucket'' ''meeting.mp3'') = Inr [demoUrl 0]"
    by (simp add: run_defs prim_defs demo_defs)
  have h8: "fst (publishSegment ?E ?w3 ''bucket'' ''meeting.mp3'' (?segs ! 1)) = Inl (Error ''AccessDenied'')"
    by (simp add: run_defs prim_defs demo_defs)
  note fatal = publish_failure_is_fatal[OF h1 h2 fst_snd_pair[OF h3] h4 fst_snd_pair[OF h5] h6
      fst_snd_pair[OF h7] fst_snd_pair[OF h8]]
  have a: "fst (handler ?E demoWorld demoEvent) = Inr \<lparr>statusCode = 500, body = ErrorBody ''AccessDenied''\<rparr>"
    using fatal[THEN conjunct1] by (simp add: demoEvent_def)
  have key0: "segmentKey ''meeting.mp3'' (seg_index (?segs ! 0)) = ''meeting_segment_0.mp3''"
    by (simp add: segmentKey_def demoSegment_def string_of_nat.simps digit_char_def)
  have w4: "snd (handler ?E demoWorld demoEvent) = ?w4"
    using fatal[THEN conjunct1] by (simp add: demoEvent_def)
  have "objects ?w4 (''bucket'', segmentKey ''meeting.mp3'' (seg_index (?segs ! 0))) \<noteq> None"
    using fatal[THEN conjunct2, THEN conjunct1, rule_format, of 0] by simp
  then have b: "objects (snd (handler ?E demoWorld demoEvent)) (''bucket'', ''meeting_segment_0.mp3'') \<noteq> None"
    unfolding w4 key0 .
  have d: "js_gt (Num 25200) 14400" and e: "(1::nat) < 2" by (simp_all add: js_gt_def)
  from h1 h2 d e a b show ?thesis
    by (intro conjI)
qed

subsection \<open>Temporary files\<close>

text \<open>
  Claim C8 does not hold of the code. When ffprobe fails, the copy of the input that the
  analysis wrote stays in /tmp. When the put of segment 1 fails, both segment files stay in
  /tmp, since cleanupTempFiles runs only after uploadSegments has returned. A run in which
  nothing fails leaves /tmp as it found it.
\<close>

theorem temp_files_left_behind:
  "fst (handler (demoEnv 25200 probeFault) demoWorld demoEvent) =
     Inr \<lparr>statusCode = 500, body = ErrorBody ''Invalid data found when processing input''\<rparr> \<and>
   files (snd (handler (demoEnv 25200 probeFault) demoWorld demoEvent)) ''/tmp/input_7.mp3'' = Some [1, 2, 3] \<and>
   fst (handler (demoEnv 25200 (putFaultAt 1)) demoWorld demoEvent) =
     Inr \<lparr>statusCode = 500, body = ErrorBody ''AccessDenied''\<rparr> \<and>
   files (snd (handler (demoEnv 25200 (putFaultAt 1)) demoWorld demoEvent)) ''/tmp/segment_0_7.mp3'' = Some [1, 2, 3] \<and>
   files (snd (handler (demoEnv 25200 (putFaultAt 1)) demoWorld demoEvent)) ''/tmp/segment_1_7.mp3'' = Some [1, 2, 3] \<and>
   files (snd (handler (demoEnv 25200 noFault) demoWorld demoEvent)) = files demoWorld"
  by (simp add: run_defs prim_defs demo_defs)

end
